theory Spec2Isabelle
  imports Complex_Main "HOL-Library.Word"
begin

section \<open>Solidity values and checked arithmetic\<close>

text \<open>
  The contracts are compiled with \<^verbatim>\<open>pragma solidity ^0.8.19\<close>: \<^verbatim>\<open>uint256\<close> arithmetic is
  checked, an overflow aborts the call with \<^verbatim>\<open>Panic(0x11)\<close>, a division by zero with
  \<^verbatim>\<open>Panic(0x12)\<close>, and a failed \<^verbatim>\<open>require\<close> with \<^verbatim>\<open>Error(string)\<close>. A call therefore yields
  either an abort or a value.
\<close>

type_synonym address = "160 word"
type_synonym uint256 = "256 word"
type_synonym uint16 = "16 word"

datatype sol_error = Revert string | Panic nat

definition bind_res :: "'e + 'a \<Rightarrow> ('a \<Rightarrow> 'e + 'b) \<Rightarrow> 'e + 'b" where
  "bind_res m f = (case m of Inl e \<Rightarrow> Inl e | Inr x \<Rightarrow> f x)"

definition checked_add :: "uint256 \<Rightarrow> uint256 \<Rightarrow> sol_error + uint256" where
  "checked_add a b = (if uint a + uint b < 2 ^ 256 then Inr (a + b) else Inl (Panic 0x11))"

definition checked_sub :: "uint256 \<Rightarrow> uint256 \<Rightarrow> sol_error + uint256" where
  "checked_sub a b = (if uint b \<le> uint a then Inr (a - b) else Inl (Panic 0x11))"

definition checked_mul :: "uint256 \<Rightarrow> uint256 \<Rightarrow> sol_error + uint256" where
  "checked_mul a b = (if uint a * uint b < 2 ^ 256 then Inr (a * b) else Inl (Panic 0x11))"

definition checked_div :: "uint256 \<Rightarrow> uint256 \<Rightarrow> sol_error + uint256" where
  "checked_div a b = (if b = 0 then Inl (Panic 0x12) else Inr (a div b))"

definition uint256_max :: uint256 where
  "uint256_max = - 1"

section \<open>The state shared by PathOptimizer and PathOptimizerV2\<close>

text \<open>
  Both contracts declare the same structs and the same two storage mappings. A Solidity
  mapping is total: a key never written reads as the all-zero struct.
\<close>

record Route =
  dexs :: "address list"
  chains :: "uint16 list"
  bridges :: "address list"
  estimatedGas :: uint256
  expectedOutput :: uint256

record PriceData =
  token :: address
  price :: uint256
  liquidity :: uint256

record optimizer_state =
  priceFeeds :: "address \<Rightarrow> uint16 \<Rightarrow> PriceData"
  chainGasPrices :: "uint16 \<Rightarrow> uint256"

definition fresh_state :: optimizer_state where
  "fresh_state = \<lparr>priceFeeds = (\<lambda>_ _. \<lparr>token = 0, price = 0, liquidity = 0\<rparr>),
                  chainGasPrices = (\<lambda>_. 0)\<rparr>"

text \<open>
  The two setters, \<^verbatim>\<open>onlyOwner\<close> in the source; the bodies are modelled, the access check
  belongs to the inherited \<^verbatim>\<open>Ownable\<close>.
\<close>

definition updatePriceFeed ::
  "address \<Rightarrow> uint16 \<Rightarrow> uint256 \<Rightarrow> uint256 \<Rightarrow> optimizer_state \<Rightarrow> optimizer_state" where
  "updatePriceFeed tok chainId pr liq st =
     st\<lparr>priceFeeds := (priceFeeds st)
          (tok := (priceFeeds st tok)(chainId := \<lparr>token = tok, price = pr, liquidity = liq\<rparr>))\<rparr>"

definition updateChainGasPrice :: "uint16 \<Rightarrow> uint256 \<Rightarrow> optimizer_state \<Rightarrow> optimizer_state" where
  "updateChainGasPrice chainId gasPrice st =
     st\<lparr>chainGasPrices := (chainGasPrices st)(chainId := gasPrice)\<rparr>"

definition UNISWAP_V2_SEPOLIA :: address where
  "UNISWAP_V2_SEPOLIA = 0xC532a74256D3Db42D0Bf7a0400fEFDbad7694008"

definition UNISWAP_V3_SEPOLIA :: address where
  "UNISWAP_V3_SEPOLIA = 0x3bFA4769FB09eefC5a80d6E87c3B9C650f7Ae48E"

definition CURVE_SEPOLIA :: address where
  "CURVE_SEPOLIA = 0x98E5F5706897074a4664DD3a32eB80242d6E694B"

definition ONEINCH_SEPOLIA :: address where
  "ONEINCH_SEPOLIA = 0x1111111254EEB25477B68fb85Ed929f73A960582"

definition UNISWAP_V2_MAINNET :: address where
  "UNISWAP_V2_MAINNET = 0x7a250d5630B4cF539739dF2C5dAcb4c659F2488D"

definition LAYERZERO_SEPOLIA :: address where
  "LAYERZERO_SEPOLIA = 0xae92d5aD7583AD66E49A0c67BAd18F6ba52dDDc1"

definition HOP_SEPOLIA :: address where
  "HOP_SEPOLIA = 0x3E4a3a4796d16c0Cd582C382691998f7c06420B6"

definition STARGATE_SEPOLIA :: address where
  "STARGATE_SEPOLIA = 0x7612Ae3D4A6d343159504e97773B2e8f51b4AB8b"

definition WETH_SEPOLIA :: address where
  "WETH_SEPOLIA = 0x7b79995e5f793A07Bc00c21412e50Ecae098E7f9"

definition USDC_SEPOLIA :: address where
  "USDC_SEPOLIA = 0xda9d4f9b69ac6C22e444eD9aF0CfC043b7a7f53f"

text \<open>
  \<^verbatim>\<open>calculateExpectedOutput\<close> has the same body in both contracts: two \<^verbatim>\<open>require\<close>s on the
  recorded prices, then \<^verbatim>\<open>(amount * sourcePrice) / targetPrice\<close> and \<^verbatim>\<open>* 95 / 100\<close>,
  each multiplication checked. The \<^verbatim>\<open>liquidity\<close> field of the two price records is
  loaded with them and never read.
\<close>

definition calculateExpectedOutput ::
  "optimizer_state \<Rightarrow> address \<Rightarrow> address \<Rightarrow> uint256 \<Rightarrow> uint16 \<Rightarrow> uint16 \<Rightarrow> sol_error + uint256" where
  "calculateExpectedOutput st sourceToken targetToken amount sourceChain targetChain =
     (let sourceData = priceFeeds st sourceToken sourceChain;
          targetData = priceFeeds st targetToken targetChain
      in if \<not> 0 < price sourceData then Inl (Revert ''Source token price not available'')
         else if \<not> 0 < price targetData then Inl (Revert ''Target token price not available'')
         else bind_res (checked_mul amount (price sourceData)) (\<lambda>scaled.
              bind_res (checked_div scaled (price targetData)) (\<lambda>expected.
              bind_res (checked_mul expected 95) (\<lambda>slipped.
              checked_div slipped 100))))"

section \<open>PathOptimizerV2\<close>

definition PathOptimizerV2_findOptimalPath ::
  "optimizer_state \<Rightarrow> address \<Rightarrow> address \<Rightarrow> uint256 \<Rightarrow> uint16 \<Rightarrow> uint16 \<Rightarrow> sol_error + Route" where
  "PathOptimizerV2_findOptimalPath st sourceToken targetToken amount sourceChain targetChain =
     bind_res (calculateExpectedOutput st sourceToken targetToken amount sourceChain targetChain)
       (\<lambda>out. Inr \<lparr>dexs = [UNISWAP_V2_SEPOLIA],
                   chains = [sourceChain, targetChain],
                   bridges = [LAYERZERO_SEPOLIA],
                   estimatedGas = 150000,
                   expectedOutput = out\<rparr>)"

text \<open>A state with two priced tokens on two chains, built with the contract's own setter.\<close>

definition priced_state :: optimizer_state where
  "priced_state = updatePriceFeed 2 2 1 1 (updatePriceFeed 1 1 2 1 fresh_state)"

section \<open>PathOptimizer\<close>

text \<open>
  The first contract. Its quotes are stubs that depend on the protocol address and the
  amount only; the \<^verbatim>\<open>fee\<close> field of a bridge quote is written \<open>bridgeFee\<close> here, since the
  DEX quote has a field of the same name.
\<close>

record DexQuote =
  dex :: address
  outputAmount :: uint256
  gasEstimate :: uint256
  fee :: uint256

record BridgeQuote =
  bridge :: address
  bridgeFee :: uint256
  estimatedTime :: uint256
  minAmount :: uint256
  maxAmount :: uint256

definition getViableDexs :: "address \<Rightarrow> address \<Rightarrow> uint256 \<Rightarrow> address list" where
  "getViableDexs fromToken toToken amount =
     (let allDexs = [UNISWAP_V2_SEPOLIA, UNISWAP_V3_SEPOLIA, CURVE_SEPOLIA]
      in [allDexs ! 0])"

definition hasLiquidity :: "address \<Rightarrow> address \<Rightarrow> address \<Rightarrow> uint256 \<Rightarrow> bool" where
  "hasLiquidity d fromToken toToken amount =
     (if d = UNISWAP_V2_SEPOLIA then True else False)"

definition getPath :: "address \<Rightarrow> address \<Rightarrow> address list" where
  "getPath fromToken toToken = [fromToken, toToken]"

definition getIntermediateTokens :: "address list" where
  "getIntermediateTokens = [WETH_SEPOLIA, USDC_SEPOLIA]"

definition getDexQuote ::
  "address \<Rightarrow> address \<Rightarrow> address \<Rightarrow> uint256 \<Rightarrow> sol_error + DexQuote" where
  "getDexQuote d fromToken toToken amount =
     bind_res (checked_mul amount 99) (\<lambda>scaled.
     bind_res (checked_div scaled 100) (\<lambda>out.
       Inr (if d = UNISWAP_V2_SEPOLIA
              then \<lparr>dex = d, outputAmount = out, gasEstimate = 150000, fee = 30\<rparr>
            else if d = ONEINCH_SEPOLIA
              then \<lparr>dex = d, outputAmount = out, gasEstimate = 180000, fee = 10\<rparr>
            else if d = UNISWAP_V3_SEPOLIA
              then \<lparr>dex = d, outputAmount = out, gasEstimate = 165000, fee = 30\<rparr>
            else \<lparr>dex = d, outputAmount = out, gasEstimate = 0, fee = 0\<rparr>)))"

definition getBridgeQuote ::
  "address \<Rightarrow> address \<Rightarrow> uint256 \<Rightarrow> uint16 \<Rightarrow> uint16 \<Rightarrow> BridgeQuote" where
  "getBridgeQuote b tok amount sourceChain targetChain =
     (if b = LAYERZERO_SEPOLIA
        then \<lparr>bridge = b, bridgeFee = 20, estimatedTime = 1800,
              minAmount = 1000000000000000000,
              maxAmount = 1000000000000000000000000\<rparr>
      else if b = HOP_SEPOLIA
        then \<lparr>bridge = b, bridgeFee = 15, estimatedTime = 1200,
              minAmount = 100000000000000000,
              maxAmount = 500000000000000000000000\<rparr>
      else if b = STARGATE_SEPOLIA
        then \<lparr>bridge = b, bridgeFee = 25, estimatedTime = 2400,
              minAmount = 500000000000000000,
              maxAmount = 2000000000000000000000000\<rparr>
      else \<lparr>bridge = b, bridgeFee = 0, estimatedTime = 0, minAmount = 0, maxAmount = 0\<rparr>)"

definition isBridgeViable :: "BridgeQuote \<Rightarrow> uint256 \<Rightarrow> bool" where
  "isBridgeViable quote amount \<longleftrightarrow> amount \<ge> minAmount quote \<and> amount \<le> maxAmount quote"

text \<open>
  \<^verbatim>\<open>getViableBridges\<close> counts the viable bridges in one pass over \<^verbatim>\<open>allBridges\<close>, allocates
  an array of that size and fills it in a second pass with the same test: the bridges
  passing the test, in the order of \<^verbatim>\<open>allBridges\<close>.
\<close>

definition allBridges :: "address list" where
  "allBridges = [LAYERZERO_SEPOLIA, HOP_SEPOLIA, STARGATE_SEPOLIA]"

definition getViableBridges :: "address \<Rightarrow> uint256 \<Rightarrow> uint16 \<Rightarrow> uint16 \<Rightarrow> address list" where
  "getViableBridges tok amount sourceChain targetChain =
     filter (\<lambda>b. isBridgeViable (getBridgeQuote b tok amount sourceChain targetChain) amount)
       allBridges"

text \<open>The two selection loops of \<^verbatim>\<open>getDirectPath\<close>, each carrying its best pair.\<close>

fun bestDex_loop ::
  "address \<Rightarrow> address \<Rightarrow> uint256 \<Rightarrow> address list \<Rightarrow> address \<times> uint256 \<Rightarrow>
   sol_error + (address \<times> uint256)" where
  "bestDex_loop s t a [] best = Inr best"
| "bestDex_loop s t a (d # ds) best =
     bind_res (getDexQuote d s t a) (\<lambda>quote.
       bestDex_loop s t a ds
         (if outputAmount quote > snd best then (d, outputAmount quote) else best))"

fun bestBridge_loop ::
  "address \<Rightarrow> uint256 \<Rightarrow> uint16 \<Rightarrow> uint16 \<Rightarrow> address list \<Rightarrow> address \<times> uint256 \<Rightarrow>
   address \<times> uint256" where
  "bestBridge_loop s a sc tc [] best = best"
| "bestBridge_loop s a sc tc (b # bs) best =
     (let quote = getBridgeQuote b s a sc tc
      in bestBridge_loop s a sc tc bs
           (if bridgeFee quote < snd best then (b, bridgeFee quote) else best))"

definition getDirectPath ::
  "optimizer_state \<Rightarrow> address \<Rightarrow> address \<Rightarrow> uint256 \<Rightarrow> uint16 \<Rightarrow> uint16 \<Rightarrow> sol_error + Route" where
  "getDirectPath st sourceToken targetToken amount sourceChain targetChain =
     (let viableDexs = getViableDexs sourceToken targetToken amount;
          viableBridges = (if sourceChain \<noteq> targetChain
                           then getViableBridges sourceToken amount sourceChain targetChain
                           else [])
      in bind_res (bestDex_loop sourceToken targetToken amount viableDexs (0, 0)) (\<lambda>(bestDex, bestOutput).
         let bestBridge = (if sourceChain \<noteq> targetChain
                           then fst (bestBridge_loop sourceToken amount sourceChain targetChain
                                       viableBridges (0, uint256_max))
                           else 0)
         in bind_res (getDexQuote bestDex sourceToken targetToken amount) (\<lambda>bestDexQuote.
            let route = \<lparr>dexs = [bestDex],
                         chains = [sourceChain, targetChain],
                         bridges = (if bestBridge \<noteq> 0 then [bestBridge] else []),
                         estimatedGas = gasEstimate bestDexQuote,
                         expectedOutput = outputAmount bestDexQuote\<rparr>
            in if bestBridge \<noteq> 0
               then (let bestBridgeQuote =
                           getBridgeQuote bestBridge sourceToken amount sourceChain targetChain
                     in bind_res (checked_add (estimatedGas route) 200000) (\<lambda>gas.
                        bind_res (checked_sub 10000 (bridgeFee bestBridgeQuote)) (\<lambda>keep.
                        bind_res (checked_mul (expectedOutput route) keep) (\<lambda>scaled.
                        bind_res (checked_div scaled 10000) (\<lambda>out.
                          Inr (route\<lparr>estimatedGas := gas, expectedOutput := out\<rparr>))))))
               else Inr route)))"

definition PathOptimizer_findOptimalPath ::
  "optimizer_state \<Rightarrow> address \<Rightarrow> address \<Rightarrow> uint256 \<Rightarrow> uint16 \<Rightarrow> uint16 \<Rightarrow> sol_error + Route" where
  "PathOptimizer_findOptimalPath st sourceToken targetToken amount sourceChain targetChain =
     getDirectPath st sourceToken targetToken amount sourceChain targetChain"

text \<open>
  \<^verbatim>\<open>calculatePathCost\<close>: the cheapest fee-plus-gas cost over the viable DEXs, with the
  cheapest bridge added for a cross-chain request; \<^verbatim>\<open>type(uint256).max\<close> when nothing
  qualifies. The inner loop runs over the viable bridges, the outer over the viable DEXs.
\<close>

fun bridgeCost_loop ::
  "optimizer_state \<Rightarrow> address \<Rightarrow> uint256 \<Rightarrow> uint16 \<Rightarrow> uint16 \<Rightarrow> uint256 \<Rightarrow> address list \<Rightarrow>
   uint256 \<Rightarrow> sol_error + uint256" where
  "bridgeCost_loop st s a sc tc pathCost [] bestTotalCost = Inr bestTotalCost"
| "bridgeCost_loop st s a sc tc pathCost (b # bs) bestTotalCost =
     (let bridgeQuote = getBridgeQuote b s a sc tc
      in bind_res (checked_add pathCost (bridgeFee bridgeQuote)) (\<lambda>withFee.
         bind_res (checked_mul (chainGasPrices st tc) 200000) (\<lambda>bridgeGas.
         bind_res (checked_add withFee bridgeGas) (\<lambda>totalCost.
           bridgeCost_loop st s a sc tc pathCost bs
             (if totalCost < bestTotalCost then totalCost else bestTotalCost)))))"

fun pathCost_loop ::
  "optimizer_state \<Rightarrow> address \<Rightarrow> address \<Rightarrow> uint256 \<Rightarrow> uint16 \<Rightarrow> uint16 \<Rightarrow> address list \<Rightarrow>
   address list \<Rightarrow> uint256 \<Rightarrow> sol_error + uint256" where
  "pathCost_loop st s t a sc tc viableBridges [] bestTotalCost = Inr bestTotalCost"
| "pathCost_loop st s t a sc tc viableBridges (d # ds) bestTotalCost =
     bind_res (getDexQuote d s t a) (\<lambda>dexQuote.
     bind_res (checked_mul (chainGasPrices st sc) (gasEstimate dexQuote)) (\<lambda>dexGas.
     bind_res (checked_add (fee dexQuote) dexGas) (\<lambda>pathCost.
       if sc \<noteq> tc
       then bind_res (bridgeCost_loop st s a sc tc pathCost viableBridges bestTotalCost)
              (\<lambda>best. pathCost_loop st s t a sc tc viableBridges ds best)
       else pathCost_loop st s t a sc tc viableBridges ds
              (if pathCost < bestTotalCost then pathCost else bestTotalCost))))"

definition calculatePathCost ::
  "optimizer_state \<Rightarrow> address \<Rightarrow> address \<Rightarrow> uint256 \<Rightarrow> uint16 \<Rightarrow> uint16 \<Rightarrow> sol_error + uint256" where
  "calculatePathCost st sourceToken targetToken amount sourceChain targetChain =
     (let viableDexs = getViableDexs sourceToken targetToken amount;
          viableBridges = (if sourceChain \<noteq> targetChain
                           then getViableBridges sourceToken amount sourceChain targetChain
                           else [])
      in pathCost_loop st sourceToken targetToken amount sourceChain targetChain
           viableBridges viableDexs uint256_max)"

fun splitCost_loop ::
  "optimizer_state \<Rightarrow> address \<Rightarrow> address \<Rightarrow> uint256 \<Rightarrow> uint16 \<Rightarrow> uint16 \<Rightarrow> address list \<Rightarrow>
   uint256 \<Rightarrow> sol_error + uint256" where
  "splitCost_loop st s t a sc tc [] bestCost = Inr bestCost"
| "splitCost_loop st s t a sc tc (midToken # ms) bestCost =
     bind_res (calculatePathCost st s midToken a sc sc) (\<lambda>firstHopCost.
     bind_res (checked_mul a (price (priceFeeds st s sc))) (\<lambda>scaled.
     bind_res (checked_div scaled (price (priceFeeds st midToken sc))) (\<lambda>estimatedMidAmount.
     bind_res (calculatePathCost st midToken t estimatedMidAmount sc tc) (\<lambda>secondHopCost.
     bind_res (checked_add firstHopCost secondHopCost) (\<lambda>totalCost.
       splitCost_loop st s t a sc tc ms
         (if totalCost < bestCost then totalCost else bestCost))))))"

definition calculateSplitPathCost ::
  "optimizer_state \<Rightarrow> address \<Rightarrow> address \<Rightarrow> uint256 \<Rightarrow> uint16 \<Rightarrow> uint16 \<Rightarrow> sol_error + uint256" where
  "calculateSplitPathCost st sourceToken targetToken amount sourceChain targetChain =
     splitCost_loop st sourceToken targetToken amount sourceChain targetChain
       getIntermediateTokens uint256_max"

text \<open>
  \<^verbatim>\<open>getSplitPath\<close> asks \<^verbatim>\<open>calculateSplitPathCost\<close> once per intermediate token, with the same
  arguments each time, and remembers a best token that the route it builds does not use.
\<close>

fun bestMid_loop ::
  "optimizer_state \<Rightarrow> address \<Rightarrow> address \<Rightarrow> uint256 \<Rightarrow> uint16 \<Rightarrow> uint16 \<Rightarrow> address list \<Rightarrow>
   address \<times> uint256 \<Rightarrow> sol_error + (address \<times> uint256)" where
  "bestMid_loop st s t a sc tc [] best = Inr best"
| "bestMid_loop st s t a sc tc (midToken # ms) best =
     bind_res (calculateSplitPathCost st s t a sc tc) (\<lambda>totalCost.
       bestMid_loop st s t a sc tc ms
         (if totalCost < snd best then (midToken, totalCost) else best))"

definition getSplitPath ::
  "optimizer_state \<Rightarrow> address \<Rightarrow> address \<Rightarrow> uint256 \<Rightarrow> uint16 \<Rightarrow> uint16 \<Rightarrow> sol_error + Route" where
  "getSplitPath st sourceToken targetToken amount sourceChain targetChain =
     bind_res (bestMid_loop st sourceToken targetToken amount sourceChain targetChain
                 getIntermediateTokens (0, uint256_max)) (\<lambda>(bestMidToken, bestCost).
     bind_res (calculateExpectedOutput st sourceToken targetToken amount sourceChain targetChain)
       (\<lambda>out. Inr \<lparr>dexs = [UNISWAP_V2_MAINNET, UNISWAP_V2_MAINNET],
                   chains = [sourceChain, sourceChain, targetChain],
                   bridges = [LAYERZERO_SEPOLIA, LAYERZERO_SEPOLIA],
                   estimatedGas = 800000,
                   expectedOutput = out\<rparr>))"

text \<open>
  Hops. A swap turns one token into another on one chain; a bridge carries one token from
  one chain to another. A hop list connects a source to a target when the first hop
  starts at the source, every hop starts where its predecessor ended, and the last hop
  ends at the target.
\<close>

datatype hop =
  Swap address address address uint16
| Bridge address address uint16 uint16

fun hop_ends :: "hop \<Rightarrow> (address \<times> uint16) \<times> (address \<times> uint16)" where
  "hop_ends (Swap protocol tokenIn tokenOut chain) = ((tokenIn, chain), (tokenOut, chain))"
| "hop_ends (Bridge protocol tok fromChain toChain) = ((tok, fromChain), (tok, toChain))"

fun connects :: "'p \<Rightarrow> 'p \<Rightarrow> ('p \<times> 'p) list \<Rightarrow> bool" where
  "connects src tgt [] \<longleftrightarrow> src = tgt"
| "connects src tgt (h # hs) \<longleftrightarrow> fst h = src \<and> connects (snd h) tgt hs"

text \<open>
  The \<^verbatim>\<open>Route\<close> struct of the contracts names protocols and chains, not tokens. Read with
  the token sequence of the request, leg \<open>i\<close> of a route swaps on \<open>dexs[i]\<close> on chain
  \<open>chains[i]\<close> and then, where the route lists a bridge for the leg, crosses over
  \<open>bridges[i]\<close> from \<open>chains[i]\<close> to \<open>chains[i + 1]\<close>. For the one-leg route of
  \<^verbatim>\<open>findOptimalPath\<close> this is the order in which \<^verbatim>\<open>IntentProcessor.processIntent\<close>
  executes it: the swap on the DEX, then the first bridge.
\<close>

fun legHops :: "address list \<Rightarrow> address list \<Rightarrow> uint16 list \<Rightarrow> address list \<Rightarrow> hop list" where
  "legHops (tokenIn # tokenOut # toks) (d # ds) (c # c' # cs) bs =
     Swap d tokenIn tokenOut c #
     (case bs of [] \<Rightarrow> [] | b # bs' \<Rightarrow> [Bridge b tokenOut c c']) @
     legHops (tokenOut # toks) ds (c' # cs) (tl bs)"
| "legHops toks ds cs bs = []"

definition routeHops :: "address list \<Rightarrow> Route \<Rightarrow> hop list" where
  "routeHops toks r = legHops toks (dexs r) (chains r) (bridges r)"

text \<open>The swaps of a token path of the router: entry \<open>i\<close> to entry \<open>i + 1\<close>.\<close>

definition hops :: "'a list \<Rightarrow> ('a \<times> 'a) list" where
  "hops xs = zip xs (tl xs)"

section \<open>The frontend RouteOptimizer\<close>

text \<open>
  JavaScript values: a \<^verbatim>\<open>bigint\<close> is an \<open>int\<close>; a thrown error is the left summand of
  the result. What the code obtains from outside the repository is a field of the
  environment: the \<^verbatim>\<open>ethers\<close> helpers and the two calls to the Uniswap router, each of
  which either rejects or answers. \<^verbatim>\<open>parseFloat\<close> yields \<open>None\<close> for \<^verbatim>\<open>NaN\<close>.
\<close>

datatype js_error = Error string | TypeError string | RangeError string | Rejected string

record web3_env =
  parseFloat :: "string \<Rightarrow> real option"
  parseEther :: "string \<Rightarrow> js_error + int"
  formatEther :: "int \<Rightarrow> string"
  isAddress :: "string \<Rightarrow> bool"
  getAmountsOut :: "int \<Rightarrow> string list \<Rightarrow> js_error + int list"
  estimateGas :: "int \<Rightarrow> string list \<Rightarrow> js_error + int"

definition TOKENS :: "(string \<times> string) list" where
  "TOKENS =
     [(''PYUSD'', ''0x610178dA211FEF7D417bC0e6FeD39F05609AD788''),
      (''ETH'', ''0xEeeeeEeeeEeEeeEeEeEeeEEEeeeeEeeeeeeeEEeE''),
      (''WETH'', ''0xC02aaA39b223FE8D0A0e5C4F27eAD9083C756Cc2''),
      (''USDC'', ''0xA0b86991c6218b36c1d19D4a2e9Eb0cE3606eB48'')]"

definition lower_char :: "char \<Rightarrow> char" where
  "lower_char c =
     (case map_of (zip ''ABCDEFGHIJKLMNOPQRSTUVWXYZ'' ''abcdefghijklmnopqrstuvwxyz'') c of
        Some d \<Rightarrow> d
      | None \<Rightarrow> c)"

definition toLowerCase :: "string \<Rightarrow> string" where
  "toLowerCase s = map lower_char s"

text \<open>
  A quote of the frontend: the token path it was asked for, the last entry of the
  router's amounts and the gas estimate (fields \<^verbatim>\<open>path\<close>, \<^verbatim>\<open>outputAmount\<close>,
  \<^verbatim>\<open>gasEstimate\<close> of the object literal).
\<close>

record path_quote =
  q_path :: "string list"
  q_outputAmount :: int
  q_gasEstimate :: int

text \<open>
  The candidate paths, through WETH first and direct second; an entry is \<open>None\<close> where
  \<^verbatim>\<open>TOKENS[symbol]\<close> is undefined. A path survives the filter when the \<^verbatim>\<open>Set\<close> of its
  entries has as many elements as the path.
\<close>

definition candidatePaths :: "string \<Rightarrow> string \<Rightarrow> string option list list" where
  "candidatePaths inputToken outputToken =
     [[map_of TOKENS inputToken, map_of TOKENS ''WETH'', map_of TOKENS outputToken],
      [map_of TOKENS inputToken, map_of TOKENS outputToken]]"

definition validPaths :: "string \<Rightarrow> string \<Rightarrow> string option list list" where
  "validPaths inputToken outputToken = filter distinct (candidatePaths inputToken outputToken)"

definition quotePath :: "web3_env \<Rightarrow> int \<Rightarrow> string option list \<Rightarrow> path_quote option" where
  "quotePath env amountIn p =
     (if \<not> list_all (\<lambda>addr. case addr of None \<Rightarrow> False | Some a \<Rightarrow> isAddress env a) p
      then None
      else case getAmountsOut env amountIn (map the p) of
             Inl err \<Rightarrow> None
           | Inr amounts \<Rightarrow>
               (case estimateGas env amountIn (map the p) of
                  Inl err \<Rightarrow> None
                | Inr gas \<Rightarrow>
                    if amounts = [] then None
                    else Some \<lparr>q_path = map the p,
                               q_outputAmount = amounts ! (length amounts - 1),
                               q_gasEstimate = gas\<rparr>))"

definition validQuotes :: "web3_env \<Rightarrow> string \<Rightarrow> string \<Rightarrow> int \<Rightarrow> path_quote list" where
  "validQuotes env inputToken outputToken amountIn =
     List.map_filter (\<lambda>q. q) (map (quotePath env amountIn) (validPaths inputToken outputToken))"

text \<open>
  The comparison of the \<^verbatim>\<open>reduce\<close> callback: output minus gas at 50 gwei, in exact
  \<^verbatim>\<open>bigint\<close> arithmetic (\<^verbatim>\<open>BigInt(50e9)\<close> is 50000000000). \<^verbatim>\<open>reduce\<close> without an initial
  value starts from the first element.
\<close>

definition gasAdjustedValue :: "path_quote \<Rightarrow> int" where
  "gasAdjustedValue q = q_outputAmount q - q_gasEstimate q * 50000000000"

definition pickBetter :: "path_quote \<Rightarrow> path_quote \<Rightarrow> path_quote" where
  "pickBetter best current =
     (let currentValue = gasAdjustedValue current;
          bestValue = gasAdjustedValue best
      in if currentValue > bestValue then current else best)"

definition reduce :: "('a \<Rightarrow> 'a \<Rightarrow> 'a) \<Rightarrow> 'a list \<Rightarrow> 'a" where
  "reduce f xs = foldl f (hd xs) (tl xs)"

text \<open>
  The returned object. Its \<^verbatim>\<open>path\<close> is the chosen token path with each address replaced
  by the first symbol of \<^verbatim>\<open>TOKENS\<close> whose address equals it up to letter case, joined by
  \<^verbatim>\<open>' -> '\<close>. The fields \<^verbatim>\<open>slippage\<close> and \<^verbatim>\<open>priority_score\<close>, two floating-point figures
  derived from the chosen quote for display, are not part of the model.
\<close>

record ui_route =
  route_protocol :: string
  route_input_token :: string
  route_output_token :: string
  route_input_amount :: string
  route_output_amount :: string
  route_gas_cost :: string
  route_execution_time :: nat
  route_path :: string

definition symbolOf :: "string \<Rightarrow> string" where
  "symbolOf addr =
     (case find (\<lambda>(k, v). toLowerCase v = toLowerCase addr) TOKENS of
        Some (k, v) \<Rightarrow> if k = [] then addr else k
      | None \<Rightarrow> addr)"

fun join :: "string \<Rightarrow> string list \<Rightarrow> string" where
  "join sep [] = []"
| "join sep [x] = x"
| "join sep (x # y # ys) = x @ sep @ join sep (y # ys)"

definition buildRoute :: "web3_env \<Rightarrow> string \<Rightarrow> string \<Rightarrow> string \<Rightarrow> path_quote \<Rightarrow> ui_route" where
  "buildRoute env inputToken outputToken amount bestQuote =
     \<lparr>route_protocol = ''Uniswap V2'',
      route_input_token = inputToken,
      route_output_token = outputToken,
      route_input_amount = amount,
      route_output_amount = formatEther env (q_outputAmount bestQuote),
      route_gas_cost = formatEther env (q_gasEstimate bestQuote * 50000000000),
      route_execution_time = 24,
      route_path = join '' -> '' (map symbolOf (q_path bestQuote))\<rparr>"

definition findBestRoute :: "web3_env \<Rightarrow> string \<Rightarrow> string \<Rightarrow> string \<Rightarrow> js_error + ui_route" where
  "findBestRoute env inputToken outputToken amount =
     (if inputToken = [] \<or> outputToken = []
        then Inl (Error ''Input and output tokens are required'')
      else if amount = [] \<or> (case parseFloat env amount of None \<Rightarrow> True | Some v \<Rightarrow> v \<le> 0)
        then Inl (Error ''Invalid amount'')
      else bind_res (parseEther env amount) (\<lambda>amountIn.
        let quotes = validQuotes env inputToken outputToken amountIn
        in if length quotes = 0
           then Inl (Error ''No valid routes found'')
           else Inr (buildRoute env inputToken outputToken amount (reduce pickBetter quotes))))"

section \<open>The analytics RouteOptimizer\<close>

text \<open>
  The script-side class queries two protocols, scores the answers and returns the head
  of the list sorted by score. A JavaScript \<^verbatim>\<open>Number\<close> is modelled by a real number, so
  the rounding of the double arithmetic is left out; \<^verbatim>\<open>bigint\<close> arithmetic is exact, and
  its division truncates towards zero and throws a \<^verbatim>\<open>RangeError\<close> on a zero divisor.
  The environment holds the answers of the RPC provider, of the Curve pool, of the
  Uniswap V3 quoter and of the spreadsheet service, and the clock.
\<close>

record rpc_env =
  provider_ok :: bool
  now :: int
  pool_get_virtual_price :: "js_error + int"
  pool_A :: "js_error + int"
  pool_fee :: "js_error + int"
  pool_coins :: "nat \<Rightarrow> js_error + string"
  pool_get_dy :: "int \<Rightarrow> int \<Rightarrow> int \<Rightarrow> js_error + int"
  quoteExactInputSingle :: "string \<Rightarrow> string \<Rightarrow> int \<Rightarrow> nat \<Rightarrow> js_error + (int \<times> int)"
  sheets_update :: "js_error option"

definition PROTOCOLS :: "(string \<times> string) list" where
  "PROTOCOLS = [(''UNISWAP_V3'', ''uniswap_v3''), (''CURVE'', ''curve'')]"

text \<open>
  The object returned by \<^verbatim>\<open>getQuote\<close>. \<^verbatim>\<open>gas_cost\<close> is the decimal string of a \<^verbatim>\<open>bigint\<close>,
  read back with \<^verbatim>\<open>Number\<close> by the scorer: the integer itself here. \<^verbatim>\<open>route_id\<close> is a
  prefix followed by the clock value.
\<close>

record route_quote =
  input_token :: string
  output_token :: string
  input_amount :: int
  output_amount :: int
  gas_cost :: int
  execution_time :: real
  slippage :: real
  path :: string
  route_id :: "string \<times> int"

fun findIndex :: "('a \<Rightarrow> bool) \<Rightarrow> 'a list \<Rightarrow> int" where
  "findIndex P [] = - 1"
| "findIndex P (x # xs) =
     (if P x then 0 else (let i = findIndex P xs in if i = - 1 then - 1 else i + 1))"

definition curveQuote :: "rpc_env \<Rightarrow> string \<Rightarrow> string \<Rightarrow> int \<Rightarrow> route_quote option" where
  "curveQuote env inputToken outputToken amount =
     (case (pool_get_virtual_price env, pool_A env, pool_fee env) of
        (Inr virtualPrice, Inr amplification, Inr poolFee) \<Rightarrow>
          if virtualPrice = 0 \<or> amplification = 0 then None
          else (case (pool_coins env 0, pool_coins env 1) of
                  (Inr c0, Inr c1) \<Rightarrow>
                    (let coins = [c0, c1];
                         inputIndex =
                           findIndex (\<lambda>coin. toLowerCase coin = toLowerCase inputToken) coins;
                         outputIndex =
                           findIndex (\<lambda>coin. toLowerCase coin = toLowerCase outputToken) coins
                     in if inputIndex = - 1 \<or> outputIndex = - 1 then None
                        else (case pool_get_dy env inputIndex outputIndex amount of
                                Inl err \<Rightarrow> None
                              | Inr dy \<Rightarrow>
                                  Some \<lparr>input_token = inputToken,
                                        output_token = outputToken,
                                        input_amount = amount,
                                        output_amount = dy,
                                        gas_cost = 100000,
                                        execution_time = 2.5,
                                        slippage = 0.001,
                                        path = inputToken @ '' -> '' @ outputToken @ '' (Curve)'',
                                        route_id = (''CURVE_'', now env)\<rparr>))
                | _ \<Rightarrow> None)
      | _ \<Rightarrow> None)"

definition uniswapV3Quote :: "rpc_env \<Rightarrow> string \<Rightarrow> string \<Rightarrow> int \<Rightarrow> route_quote option" where
  "uniswapV3Quote env inputToken outputToken amount =
     (case quoteExactInputSingle env inputToken outputToken amount 500 of
        Inl err \<Rightarrow> None
      | Inr (bestOutput, gasCost) \<Rightarrow>
          if bestOutput = 0 then None
          else Some \<lparr>input_token = inputToken,
                     output_token = outputToken,
                     input_amount = amount,
                     output_amount = bestOutput,
                     gas_cost = gasCost,
                     execution_time = 2.2,
                     slippage = 0.003,
                     path = inputToken @ '' -> '' @ outputToken,
                     route_id = (''UNIV3_'', now env)\<rparr>)"

text \<open>
  \<^verbatim>\<open>getQuote\<close> builds the provider and the wallet before its \<^verbatim>\<open>try\<close>: a failure there is
  thrown to the caller. Every failure inside the \<^verbatim>\<open>try\<close> is caught, logged and answered
  with \<^verbatim>\<open>null\<close> (\<open>None\<close>).
\<close>

definition getQuote ::
  "rpc_env \<Rightarrow> string \<Rightarrow> string \<Rightarrow> string \<Rightarrow> int \<Rightarrow> js_error + route_quote option" where
  "getQuote env protocol inputToken outputToken amount =
     (if \<not> provider_ok env then Inl (Rejected ''provider'')
      else Inr (if Some protocol = map_of PROTOCOLS ''CURVE''
                  then curveQuote env inputToken outputToken amount
                else if Some protocol = map_of PROTOCOLS ''UNISWAP_V3''
                  then uniswapV3Quote env inputToken outputToken amount
                else None))"

text \<open>
  \<^verbatim>\<open>queryRoutes\<close> spreads the quote into the route object: after \<^verbatim>\<open>...null\<close> the object has
  a protocol and a timestamp and none of the quote's fields. Only a thrown \<^verbatim>\<open>getQuote\<close>
  makes the entry \<^verbatim>\<open>null\<close>, which the filter removes.
\<close>

record queried_route =
  protocol :: string
  quote :: "route_quote option"
  timestamp :: int

record scored_route = queried_route +
  priority_score :: real

definition queryRoutes :: "rpc_env \<Rightarrow> string \<Rightarrow> string \<Rightarrow> int \<Rightarrow> queried_route list" where
  "queryRoutes env inputToken outputToken amount =
     List.map_filter
       (\<lambda>p. case getQuote env p inputToken outputToken amount of
               Inl err \<Rightarrow> None
             | Inr q \<Rightarrow> Some \<lparr>protocol = p, quote = q, timestamp = now env\<rparr>)
       (map snd PROTOCOLS)"

text \<open>
  The mock history of \<^verbatim>\<open>calculatePriorityScores\<close>. Its first entry is keyed by
  \<^verbatim>\<open>PROTOCOLS.UNISWAP_V2\<close>, which \<^verbatim>\<open>PROTOCOLS\<close> does not define: the key is \<^verbatim>\<open>undefined\<close>.
\<close>

record history =
  history_protocol :: "string option"
  avg_execution_time :: real
  avg_slippage :: real
  total_executions :: nat

definition historicalData :: "history list" where
  "historicalData =
     [\<lparr>history_protocol = map_of PROTOCOLS ''UNISWAP_V2'', avg_execution_time = 2,
       avg_slippage = 0.001, total_executions = 1000\<rparr>,
      \<lparr>history_protocol = map_of PROTOCOLS ''UNISWAP_V3'', avg_execution_time = 2.2,
       avg_slippage = 0.0005, total_executions = 800\<rparr>]"

text \<open>
  \<^verbatim>\<open>history\<close> is the entry found or the empty object; \<^verbatim>\<open>x || d\<close> is \<open>d\<close> when \<open>x\<close> is zero
  or missing.
\<close>

definition reliabilityScore :: "history option \<Rightarrow> real" where
  "reliabilityScore h =
     (case h of
        None \<Rightarrow> 0
      | Some e \<Rightarrow>
          if total_executions e \<noteq> 0
          then (1 / (if avg_slippage e = 0 then 0.01 else avg_slippage e)) *
               (1 / (if avg_execution_time e = 0 then 1 else avg_execution_time e))
          else 0)"

definition historyOf :: "string \<Rightarrow> history option" where
  "historyOf p = find (\<lambda>h. history_protocol h = Some p) historicalData"

definition bigint_div :: "int \<Rightarrow> int \<Rightarrow> js_error + int" where
  "bigint_div a b =
     (if b = 0 then Inl (RangeError ''Division by zero'')
      else Inr (sgn a * sgn b * (\<bar>a\<bar> div \<bar>b\<bar>)))"

definition scoreRoute :: "queried_route \<Rightarrow> js_error + scored_route" where
  "scoreRoute route =
     (let reliability = reliabilityScore (historyOf (protocol route))
      in case quote route of
           None \<Rightarrow> Inl (TypeError ''Cannot convert undefined to a BigInt'')
         | Some q \<Rightarrow>
             bind_res (bigint_div (output_amount q * 400) (input_amount q)) (\<lambda>ratio.
               Inr \<lparr>protocol = protocol route, quote = quote route,
                    timestamp = timestamp route,
                    priority_score =
                      real_of_int ratio / 1000 +
                      (1 / (if gas_cost q = 0 then 1 else real_of_int (gas_cost q))) * 0.3 +
                      reliability * 0.3\<rparr>))"

fun map_res :: "('a \<Rightarrow> 'e + 'b) \<Rightarrow> 'a list \<Rightarrow> 'e + 'b list" where
  "map_res f [] = Inr []"
| "map_res f (x # xs) =
     bind_res (f x) (\<lambda>y. bind_res (map_res f xs) (\<lambda>ys. Inr (y # ys)))"

text \<open>
  \<^verbatim>\<open>sort((a, b) => b.priority_score - a.priority_score)\<close>: a stable sort, highest score
  first.
\<close>

definition calculatePriorityScores :: "queried_route list \<Rightarrow> js_error + scored_route list" where
  "calculatePriorityScores routes =
     bind_res (map_res scoreRoute routes)
       (\<lambda>scored. Inr (sort_key (\<lambda>r. - priority_score r) scored))"

text \<open>
  \<^verbatim>\<open>updateRouteData\<close> only logs. \<^verbatim>\<open>updateDashboard\<close> awaits the spreadsheet service, whose
  rejection is not caught. \<^verbatim>\<open>scoredRoutes[0]\<close> of an empty list is \<^verbatim>\<open>undefined\<close> (\<open>None\<close>).
\<close>

definition updateDashboard :: "rpc_env \<Rightarrow> scored_route list \<Rightarrow> js_error + unit" where
  "updateDashboard env routes =
     (case sheets_update env of Some err \<Rightarrow> Inl err | None \<Rightarrow> Inr ())"

definition findBestRoute_analytics ::
  "rpc_env \<Rightarrow> string \<Rightarrow> string \<Rightarrow> int \<Rightarrow> js_error + scored_route option" where
  "findBestRoute_analytics env inputToken outputToken amount =
     (let routes = queryRoutes env inputToken outputToken amount
      in bind_res (calculatePriorityScores routes) (\<lambda>scoredRoutes.
         bind_res (updateDashboard env scoredRoutes) (\<lambda>u.
           Inr (case scoredRoutes of [] \<Rightarrow> None | best # rest \<Rightarrow> Some best))))"

section \<open>Concrete environments\<close>

text \<open>
  A router that answers every path with the input amount itself and charges 60000 gas
  per path entry: the direct path is the cheaper one.
\<close>

definition flat_env :: web3_env where
  "flat_env =
     \<lparr>parseFloat = (\<lambda>s. if s = ''1'' then Some 1 else None),
      parseEther = (\<lambda>s. if s = ''1'' then Inr 1000000000000000000
                         else Inl (Rejected ''invalid decimal value'')),
      formatEther = (\<lambda>n. if n = 1000000000000000000 then ''1.0'' else ''0.0''),
      isAddress = (\<lambda>a. a \<in> set (map snd TOKENS)),
      getAmountsOut = (\<lambda>amountIn p. Inr (map (\<lambda>t. amountIn) p)),
      estimateGas = (\<lambda>amountIn p. Inr (60000 * int (length p)))\<rparr>"

text \<open>The same router with one gas estimate for every path: the two candidates tie.\<close>

definition tie_env :: web3_env where
  "tie_env = flat_env\<lparr>estimateGas := (\<lambda>amountIn p. Inr 100000)\<rparr>"

text \<open>A router whose every call is rejected.\<close>

definition dead_env :: web3_env where
  "dead_env = flat_env\<lparr>getAmountsOut := (\<lambda>amountIn p. Inl (Rejected ''call revert exception''))\<rparr>"

text \<open>
  A chain on which the Curve pool holds PYUSD and USDC and both protocols answer, and one
  on which every contract call is rejected.
\<close>

definition live_rpc :: rpc_env where
  "live_rpc =
     \<lparr>provider_ok = True,
      now = 1700000000000,
      pool_get_virtual_price = Inr 1000000000000000000,
      pool_A = Inr 200,
      pool_fee = Inr 4000000,
      pool_coins = (\<lambda>i. if i = 0 then Inr ''0x6c3ea9036406852006290770BEdFcAbA0e23A0e8''
                         else Inr ''0xA0b86991c6218b36c1d19D4a2e9Eb0cE3606eB48''),
      pool_get_dy = (\<lambda>i j dx. Inr (dx * 998 div 1000)),
      quoteExactInputSingle = (\<lambda>tokenIn tokenOut amountIn poolFee. Inr (amountIn * 995 div 1000, 120000)),
      sheets_update = None\<rparr>"

definition dead_rpc :: rpc_env where
  "dead_rpc =
     live_rpc\<lparr>pool_get_virtual_price := Inl (Rejected ''call revert exception''),
              quoteExactInputSingle :=
                (\<lambda>tokenIn tokenOut amountIn poolFee. Inl (Rejected ''call revert exception''))\<rparr>"

definition PYUSD_MAINNET :: string where
  "PYUSD_MAINNET = ''0x6c3ea9036406852006290770BEdFcAbA0e23A0e8''"

definition USDC_MAINNET :: string where
  "USDC_MAINNET = ''0xA0b86991c6218b36c1d19D4a2e9Eb0cE3606eB48''"

text \<open>
  The price feeds with every recorded liquidity replaced, and a state in which the two
  intermediate tokens are priced on chain 1 as well.
\<close>

definition withLiquidity ::
  "(address \<Rightarrow> uint16 \<Rightarrow> uint256) \<Rightarrow> optimizer_state \<Rightarrow> optimizer_state" where
  "withLiquidity L st =
     st\<lparr>priceFeeds := (\<lambda>tok c. (priceFeeds st tok c)\<lparr>liquidity := L tok c\<rparr>)\<rparr>"

definition split_state :: optimizer_state where
  "split_state =
     updatePriceFeed USDC_SEPOLIA 1 1 1 (updatePriceFeed WETH_SEPOLIA 1 1 1 priced_state)"

text \<open>
  \<^verbatim>\<open>IntentProcessor\<close> rejects a route without a DEX by
  \<^verbatim>\<open>require(route.dexs.length > 0, "No viable route found")\<close>: the no-route failure of the
  contracts.
\<close>

definition NO_VIABLE_ROUTE :: sol_error where
  "NO_VIABLE_ROUTE = Revert ''No viable route found''"

text \<open>
  Two router quotes, the direct one with the larger output, and a route of the analytics
  class as \<^verbatim>\<open>queryRoutes\<close> builds it from a Curve quote.
\<close>

definition quoteA :: path_quote where
  "quoteA = \<lparr>q_path = [''a'', ''b''], q_outputAmount = 1000, q_gasEstimate = 0\<rparr>"

definition quoteB :: path_quote where
  "quoteB = \<lparr>q_path = [''a'', ''c'', ''b''], q_outputAmount = 900, q_gasEstimate = 0\<rparr>"

definition curveQuoted :: route_quote where
  "curveQuoted =
     \<lparr>input_token = PYUSD_MAINNET, output_token = USDC_MAINNET,
      input_amount = 1000, output_amount = 995, gas_cost = 100000,
      execution_time = 2.5, slippage = 0.001,
      path = PYUSD_MAINNET @ '' -> '' @ USDC_MAINNET @ '' (Curve)'',
      route_id = (''CURVE_'', 1700000000000)\<rparr>"

definition curveRoute :: queried_route where
  "curveRoute = \<lparr>protocol = ''curve'', quote = Some curveQuoted, timestamp = 1700000000000\<rparr>"

definition v3Quoted :: route_quote where
  "v3Quoted =
     \<lparr>input_token = PYUSD_MAINNET, output_token = USDC_MAINNET,
      input_amount = 1000, output_amount = 990, gas_cost = 120000,
      execution_time = 2.2, slippage = 0.003,
      path = PYUSD_MAINNET @ '' -> '' @ USDC_MAINNET,
      route_id = (''UNIV3_'', 1700000000000)\<rparr>"

definition v3Route :: queried_route where
  "v3Route = \<lparr>protocol = ''uniswap_v3'', quote = Some v3Quoted, timestamp = 1700000000000\<rparr>"

definition curveScored :: scored_route where
  "curveScored =
     \<lparr>protocol = ''curve'', quote = Some curveQuoted, timestamp = 1700000000000,
      priority_score = 398003 / 1000000\<rparr>"

definition v3Scored :: scored_route where
  "v3Scored =
     \<lparr>protocol = ''uniswap_v3'', quote = Some v3Quoted, timestamp = 1700000000000,
      priority_score = 1201742411 / 4400000\<rparr>"

section \<open>Facts about the checked arithmetic\<close>

lemma bind_res_Inr_iff:
  "bind_res m f = Inr y \<longleftrightarrow> (\<exists>x. m = Inr x \<and> f x = Inr y)"
  by (cases m) (simp_all add: bind_res_def)

lemma bind_res_Inl_iff:
  "bind_res m f = Inl e \<longleftrightarrow> m = Inl e \<or> (\<exists>x. m = Inr x \<and> f x = Inl e)"
  by (cases m) (simp_all add: bind_res_def)

lemma checked_mul_Inr_iff:
  "checked_mul a b = Inr c \<longleftrightarrow> uint a * uint b < 2 ^ 256 \<and> c = a * b"
  by (auto simp: checked_mul_def)

lemma checked_div_Inr_iff:
  "checked_div a b = Inr c \<longleftrightarrow> b \<noteq> 0 \<and> c = a div b"
  by (auto simp: checked_div_def)

lemma calculateExpectedOutput_Inr_iff:
  "calculateExpectedOutput st s t a sc tc = Inr out \<longleftrightarrow>
     0 < price (priceFeeds st s sc) \<and> 0 < price (priceFeeds st t tc) \<and>
     uint a * uint (price (priceFeeds st s sc)) < 2 ^ 256 \<and>
     uint (a * price (priceFeeds st s sc) div price (priceFeeds st t tc)) * 95 < 2 ^ 256 \<and>
     out = a * price (priceFeeds st s sc) div price (priceFeeds st t tc) * 95 div 100"
  by (auto simp: calculateExpectedOutput_def Let_def bind_res_Inr_iff checked_mul_Inr_iff
      checked_div_Inr_iff word_greater_zero_iff)

section \<open>PathOptimizerV2: the returned route\<close>

text \<open>
  C2. \<^verbatim>\<open>PathOptimizerV2.findOptimalPath\<close> enumerates nothing and compares nothing. The call
  returns exactly when both prices are recorded and neither checked multiplication
  overflows; every route it returns holds the one hard-coded Uniswap V2 address as its
  only DEX, the one hard-coded LayerZero address as its only bridge, the chains
  \<open>[sourceChain, targetChain]\<close> and \<open>estimatedGas = 150000\<close>. Only \<open>expectedOutput\<close>
  depends on the tokens, the amount and the price feeds.
\<close>

theorem findOptimalPathV2_constant_structure:
  "((\<exists>r. PathOptimizerV2_findOptimalPath st s t a sc tc = Inr r) \<longleftrightarrow>
      0 < price (priceFeeds st s sc) \<and> 0 < price (priceFeeds st t tc) \<and>
      uint a * uint (price (priceFeeds st s sc)) < 2 ^ 256 \<and>
      uint (a * price (priceFeeds st s sc) div price (priceFeeds st t tc)) * 95 < 2 ^ 256) \<and>
   (\<forall>r. PathOptimizerV2_findOptimalPath st s t a sc tc = Inr r \<longrightarrow>
      dexs r = [0xC532a74256D3Db42D0Bf7a0400fEFDbad7694008] \<and>
      bridges r = [0xae92d5aD7583AD66E49A0c67BAd18F6ba52dDDc1] \<and>
      chains r = [sc, tc] \<and>
      estimatedGas r = 150000 \<and>
      expectedOutput r =
        a * price (priceFeeds st s sc) div price (priceFeeds st t tc) * 95 div 100)"
  by (auto simp: PathOptimizerV2_findOptimalPath_def bind_res_Inr_iff
      calculateExpectedOutput_Inr_iff UNISWAP_V2_SEPOLIA_def LAYERZERO_SEPOLIA_def)

theorem findOptimalPathV2_constant_structure_witness:
  "PathOptimizerV2_findOptimalPath priced_state 1 2 1000 1 2 =
     Inr \<lparr>dexs = [0xC532a74256D3Db42D0Bf7a0400fEFDbad7694008], chains = [1, 2],
          bridges = [0xae92d5aD7583AD66E49A0c67BAd18F6ba52dDDc1],
          estimatedGas = 150000, expectedOutput = 1900\<rparr>"
proof -
  have p1: "price (priceFeeds priced_state 1 1) = 2"
    by (simp add: priced_state_def updatePriceFeed_def fresh_state_def)
  have p2: "price (priceFeeds priced_state 2 2) = 1"
    by (simp add: priced_state_def updatePriceFeed_def fresh_state_def)
  from findOptimalPathV2_constant_structure [of priced_state 1 2 1000 1 2]
  obtain r where r: "PathOptimizerV2_findOptimalPath priced_state 1 2 1000 1 2 = Inr r"
    by (auto simp: p1 p2)
  with findOptimalPathV2_constant_structure [of priced_state 1 2 1000 1 2]
  have "dexs r = [0xC532a74256D3Db42D0Bf7a0400fEFDbad7694008]"
    and "bridges r = [0xae92d5aD7583AD66E49A0c67BAd18F6ba52dDDc1]"
    and "chains r = [1, 2]" and "estimatedGas r = 150000" and "expectedOutput r = 1900"
    by (simp_all add: p1 p2)
  then have "r = \<lparr>dexs = [0xC532a74256D3Db42D0Bf7a0400fEFDbad7694008], chains = [1, 2],
          bridges = [0xae92d5aD7583AD66E49A0c67BAd18F6ba52dDDc1],
          estimatedGas = 150000, expectedOutput = 1900\<rparr>"
    by simp
  with r show ?thesis by simp
qed

section \<open>Facts about PathOptimizer\<close>

lemma checked_add_Inr_iff:
  "checked_add a b = Inr c \<longleftrightarrow> uint a + uint b < 2 ^ 256 \<and> c = a + b"
  by (auto simp: checked_add_def)

lemma checked_sub_Inr_iff:
  "checked_sub a b = Inr c \<longleftrightarrow> uint b \<le> uint a \<and> c = a - b"
  by (auto simp: checked_sub_def)

lemma getViableDexs_eq: "getViableDexs f t a = [UNISWAP_V2_SEPOLIA]"
  by (simp add: getViableDexs_def)

lemma getDexQuote_cases:
  "getDexQuote d s t a =
     (if uint a * 99 < 2 ^ 256
      then Inr \<lparr>dex = d, outputAmount = a * 99 div 100,
                gasEstimate = (if d = UNISWAP_V2_SEPOLIA then 150000
                               else if d = ONEINCH_SEPOLIA then 180000
                               else if d = UNISWAP_V3_SEPOLIA then 165000 else 0),
                fee = (if d = UNISWAP_V2_SEPOLIA then 30
                       else if d = ONEINCH_SEPOLIA then 10
                       else if d = UNISWAP_V3_SEPOLIA then 30 else 0)\<rparr>
      else Inl (Panic 0x11))"
  by (simp add: getDexQuote_def bind_res_def checked_mul_def checked_div_def)

lemma bestBridge_loop_fst:
  "fst (bestBridge_loop s a sc tc bs best) = fst best \<or>
   fst (bestBridge_loop s a sc tc bs best) \<in> set bs"
proof (induction bs arbitrary: best)
  case Nil
  then show ?case by simp
next
  case (Cons b bs)
  show ?case
    using Cons.IH [of "(b, bridgeFee (getBridgeQuote b s a sc tc))"] Cons.IH [of best]
    by (auto simp: Let_def)
qed

lemma getDirectPath_bridges:
  assumes "getDirectPath st s t a sc tc = Inr r" and "b \<in> set (bridges r)"
  shows "sc \<noteq> tc \<and> b \<in> set (getViableBridges s a sc tc)"
proof -
  let ?bb = "fst (bestBridge_loop s a sc tc (getViableBridges s a sc tc) (0, uint256_max))"
  have alt: "?bb = 0 \<or> ?bb \<in> set (getViableBridges s a sc tc)"
    using bestBridge_loop_fst [of s a sc tc "getViableBridges s a sc tc" "(0, uint256_max)"]
    by simp
  from assms have "sc \<noteq> tc \<and> b = ?bb \<and> ?bb \<noteq> 0"
    by (auto simp: getDirectPath_def Let_def bind_res_Inr_iff split: if_splits prod.splits)
  with alt show ?thesis by auto
qed

lemma getViableBridges_iff:
  "b \<in> set (getViableBridges tok a sc tc) \<longleftrightarrow>
     b \<in> set allBridges \<and> minAmount (getBridgeQuote b tok a sc tc) \<le> a \<and>
     a \<le> maxAmount (getBridgeQuote b tok a sc tc)"
  by (auto simp: getViableBridges_def isBridgeViable_def)

lemma getDirectPath_no_bridge:
  assumes "sc \<noteq> tc" and "getViableBridges s a sc tc = []" and "uint a * 99 < 2 ^ 256"
  shows "\<exists>r. getDirectPath st s t a sc tc = Inr r \<and> bridges r = [] \<and> chains r = [sc, tc]"
  using assms
  by (simp add: getDirectPath_def getViableDexs_eq getDexQuote_cases bind_res_def Let_def)

lemma getDirectPath_withLiquidity:
  "getDirectPath (withLiquidity L st) s t a sc tc = getDirectPath st s t a sc tc"
  by (simp add: getDirectPath_def)

lemma calculateExpectedOutput_withLiquidity:
  "calculateExpectedOutput (withLiquidity L st) s t a sc tc =
   calculateExpectedOutput st s t a sc tc"
  by (simp add: calculateExpectedOutput_def withLiquidity_def Let_def)

lemma findOptimalPathV2_source_unpriced:
  "price (priceFeeds st s sc) = 0 \<Longrightarrow>
   PathOptimizerV2_findOptimalPath st s t a sc tc =
     Inl (Revert ''Source token price not available'')"
  by (simp add: PathOptimizerV2_findOptimalPath_def calculateExpectedOutput_def bind_res_def
      Let_def)

lemma findOptimalPathV2_target_unpriced:
  "price (priceFeeds st s sc) \<noteq> 0 \<Longrightarrow> price (priceFeeds st t tc) = 0 \<Longrightarrow>
   PathOptimizerV2_findOptimalPath st s t a sc tc =
     Inl (Revert ''Target token price not available'')"
  by (simp add: PathOptimizerV2_findOptimalPath_def calculateExpectedOutput_def bind_res_def
      Let_def word_greater_zero_iff)

lemma priced_state_1: "priceFeeds priced_state 1 1 = \<lparr>token = 1, price = 2, liquidity = 1\<rparr>"
  by (simp add: priced_state_def updatePriceFeed_def fresh_state_def)

lemma priced_state_2: "priceFeeds priced_state 2 2 = \<lparr>token = 2, price = 1, liquidity = 1\<rparr>"
  by (simp add: priced_state_def updatePriceFeed_def fresh_state_def)

lemma findOptimalPathV2_priced:
  "PathOptimizerV2_findOptimalPath priced_state 1 2 1000 1 2 =
     Inr \<lparr>dexs = [UNISWAP_V2_SEPOLIA], chains = [1, 2], bridges = [LAYERZERO_SEPOLIA],
          estimatedGas = 150000, expectedOutput = 1900\<rparr>"
  by (simp add: PathOptimizerV2_findOptimalPath_def calculateExpectedOutput_def bind_res_def
      Let_def priced_state_1 priced_state_2 checked_mul_def checked_div_def)

lemma no_viable_bridge_1000: "getViableBridges 1 1000 1 2 = []"
  by (simp add: getViableBridges_def allBridges_def isBridgeViable_def getBridgeQuote_def
      LAYERZERO_SEPOLIA_def HOP_SEPOLIA_def STARGATE_SEPOLIA_def word_le_nat_alt)

lemma findOptimalPath_priced_1000:
  "PathOptimizer_findOptimalPath priced_state 1 2 1000 1 2 =
     Inr \<lparr>dexs = [UNISWAP_V2_SEPOLIA], chains = [1, 2], bridges = [],
          estimatedGas = 150000, expectedOutput = 990\<rparr>"
  by (simp add: PathOptimizer_findOptimalPath_def getDirectPath_def getViableDexs_eq
      getDexQuote_cases bind_res_def Let_def no_viable_bridge_1000 word_less_nat_alt)

lemma hop_only_viable: "getViableBridges 1 200000000000000000 1 2 = [HOP_SEPOLIA]"
  by (simp add: getViableBridges_def allBridges_def isBridgeViable_def getBridgeQuote_def
      LAYERZERO_SEPOLIA_def HOP_SEPOLIA_def STARGATE_SEPOLIA_def word_le_nat_alt)

lemma fee_below_max: "(15::uint256) < uint256_max"
  by (simp add: uint256_max_def word_order.not_eq_extremum [symmetric])

lemma findOptimalPath_priced_hop:
  "PathOptimizer_findOptimalPath priced_state 1 2 200000000000000000 1 2 =
     Inr \<lparr>dexs = [UNISWAP_V2_SEPOLIA], chains = [1, 2], bridges = [HOP_SEPOLIA],
          estimatedGas = 350000, expectedOutput = 197703000000000000\<rparr>"
  by (simp add: PathOptimizer_findOptimalPath_def getDirectPath_def getViableDexs_eq
      getDexQuote_cases bind_res_def Let_def hop_only_viable fee_below_max getBridgeQuote_def
      HOP_SEPOLIA_def LAYERZERO_SEPOLIA_def checked_add_def checked_sub_def checked_mul_def
      checked_div_def)

section \<open>Liquidity\<close>

text \<open>
  C3, as stated, fails. No path of either contract compares an amount with a recorded
  liquidity. With a liquidity of 1 recorded for both tokens, a request for 1000 units is
  answered with a route by \<^verbatim>\<open>PathOptimizerV2.findOptimalPath\<close> and by
  \<^verbatim>\<open>PathOptimizer.findOptimalPath\<close> alike.
\<close>

theorem liquidity_cap_not_enforced:
  "liquidity (priceFeeds priced_state 1 1) = 1 \<and>
   liquidity (priceFeeds priced_state 2 2) = 1 \<and>
   (1::uint256) < 1000 \<and>
   PathOptimizerV2_findOptimalPath priced_state 1 2 1000 1 2 =
     Inr \<lparr>dexs = [UNISWAP_V2_SEPOLIA], chains = [1, 2], bridges = [LAYERZERO_SEPOLIA],
          estimatedGas = 150000, expectedOutput = 1900\<rparr> \<and>
   PathOptimizer_findOptimalPath priced_state 1 2 1000 1 2 =
     Inr \<lparr>dexs = [UNISWAP_V2_SEPOLIA], chains = [1, 2], bridges = [],
          estimatedGas = 150000, expectedOutput = 990\<rparr>"
  by (simp add: priced_state_1 priced_state_2 findOptimalPathV2_priced
      findOptimalPath_priced_1000)

text \<open>
  C3, amended. The answer of \<^verbatim>\<open>findOptimalPath\<close>, in either contract, does not depend on
  the recorded liquidity: replacing every liquidity value in the price feeds changes
  neither the route nor the abort. \<^verbatim>\<open>hasLiquidity\<close>, which no function calls, ignores the
  amount and the feeds and holds exactly for the hard-coded Uniswap V2 address.
\<close>

theorem findOptimalPath_independent_of_liquidity:
  "PathOptimizerV2_findOptimalPath (withLiquidity L st) s t a sc tc =
     PathOptimizerV2_findOptimalPath st s t a sc tc \<and>
   PathOptimizer_findOptimalPath (withLiquidity L st) s t a sc tc =
     PathOptimizer_findOptimalPath st s t a sc tc \<and>
   (hasLiquidity d fromToken toToken amount \<longleftrightarrow>
      d = 0xC532a74256D3Db42D0Bf7a0400fEFDbad7694008)"
  by (simp add: PathOptimizerV2_findOptimalPath_def PathOptimizer_findOptimalPath_def
      calculateExpectedOutput_withLiquidity getDirectPath_withLiquidity hasLiquidity_def
      UNISWAP_V2_SEPOLIA_def)

section \<open>Bridge bounds\<close>

text \<open>
  C9, as stated, fails. \<^verbatim>\<open>PathOptimizerV2.findOptimalPath\<close> attaches the LayerZero bridge
  to a route for 1000 units, although the bounds that \<^verbatim>\<open>getBridgeQuote\<close> declares for that
  bridge start at \<open>10\<^sup>1\<^sup>8\<close> units and \<^verbatim>\<open>isBridgeViable\<close> rejects the amount.
\<close>

theorem v2_attaches_bridge_outside_bounds:
  "PathOptimizerV2_findOptimalPath priced_state 1 2 1000 1 2 =
     Inr \<lparr>dexs = [UNISWAP_V2_SEPOLIA], chains = [1, 2], bridges = [LAYERZERO_SEPOLIA],
          estimatedGas = 150000, expectedOutput = 1900\<rparr> \<and>
   minAmount (getBridgeQuote LAYERZERO_SEPOLIA 1 1000 1 2) = 1000000000000000000 \<and>
   \<not> isBridgeViable (getBridgeQuote LAYERZERO_SEPOLIA 1 1000 1 2) 1000 \<and>
   LAYERZERO_SEPOLIA \<notin> set (getViableBridges 1 1000 1 2)"
  by (simp add: findOptimalPathV2_priced no_viable_bridge_1000 isBridgeViable_def
      getBridgeQuote_def word_le_nat_alt)

text \<open>
  C9, amended. In \<^verbatim>\<open>PathOptimizer\<close> a bridge is in the viable set exactly when it is one of
  the three known bridges and the amount lies within the \<open>[minAmount, maxAmount]\<close> bounds
  of its quote, and every bridge on a route returned by \<^verbatim>\<open>PathOptimizer.findOptimalPath\<close>
  is such a bridge, attached to a cross-chain request only.
  \<^verbatim>\<open>PathOptimizerV2.findOptimalPath\<close> checks no bounds: every route it returns carries the
  hard-coded LayerZero bridge.
\<close>

theorem bridge_viability_bounds:
  "(b \<in> set (getViableBridges tok a sc tc) \<longleftrightarrow>
      b \<in> set allBridges \<and> minAmount (getBridgeQuote b tok a sc tc) \<le> a \<and>
      a \<le> maxAmount (getBridgeQuote b tok a sc tc)) \<and>
   (\<forall>r. PathOptimizer_findOptimalPath st s t a sc tc = Inr r \<longrightarrow>
      (\<forall>b' \<in> set (bridges r).
         sc \<noteq> tc \<and> b' \<in> set allBridges \<and> minAmount (getBridgeQuote b' s a sc tc) \<le> a \<and>
         a \<le> maxAmount (getBridgeQuote b' s a sc tc))) \<and>
   (\<forall>r. PathOptimizerV2_findOptimalPath st s t a sc tc = Inr r \<longrightarrow>
      bridges r = [LAYERZERO_SEPOLIA])"
proof (intro conjI allI impI ballI)
  show "b \<in> set (getViableBridges tok a sc tc) \<longleftrightarrow>
      b \<in> set allBridges \<and> minAmount (getBridgeQuote b tok a sc tc) \<le> a \<and>
      a \<le> maxAmount (getBridgeQuote b tok a sc tc)"
    by (rule getViableBridges_iff)
next
  fix r b'
  assume "PathOptimizer_findOptimalPath st s t a sc tc = Inr r" and "b' \<in> set (bridges r)"
  then have v: "sc \<noteq> tc \<and> b' \<in> set (getViableBridges s a sc tc)"
    using getDirectPath_bridges [of st s t a sc tc r b']
    by (simp add: PathOptimizer_findOptimalPath_def)
  then show "sc \<noteq> tc" by simp
  from v show "b' \<in> set allBridges" by (simp add: getViableBridges_iff)
  from v show "minAmount (getBridgeQuote b' s a sc tc) \<le> a" by (simp add: getViableBridges_iff)
  from v show "a \<le> maxAmount (getBridgeQuote b' s a sc tc)" by (simp add: getViableBridges_iff)
next
  fix r
  assume "PathOptimizerV2_findOptimalPath st s t a sc tc = Inr r"
  then show "bridges r = [LAYERZERO_SEPOLIA]"
    by (auto simp: PathOptimizerV2_findOptimalPath_def bind_res_Inr_iff)
qed

theorem bridge_viability_bounds_witness:
  "PathOptimizer_findOptimalPath priced_state 1 2 200000000000000000 1 2 =
     Inr \<lparr>dexs = [UNISWAP_V2_SEPOLIA], chains = [1, 2], bridges = [HOP_SEPOLIA],
          estimatedGas = 350000, expectedOutput = 197703000000000000\<rparr> \<and>
   HOP_SEPOLIA \<in> set allBridges \<and>
   minAmount (getBridgeQuote HOP_SEPOLIA 1 200000000000000000 1 2) \<le> 200000000000000000 \<and>
   200000000000000000 \<le> maxAmount (getBridgeQuote HOP_SEPOLIA 1 200000000000000000 1 2)"
  using bridge_viability_bounds [of HOP_SEPOLIA 1 200000000000000000 1 2 priced_state 1 2]
  by (simp add: findOptimalPath_priced_hop)

section \<open>Missing prices\<close>

text \<open>
  C10, as stated, fails. With no price recorded, \<^verbatim>\<open>PathOptimizerV2.findOptimalPath\<close> is
  aborted by the \<^verbatim>\<open>require\<close> of \<^verbatim>\<open>calculateExpectedOutput\<close>: the caller sees the reason
  \<^verbatim>\<open>Source token price not available\<close>, which is not the no-route failure.
\<close>

theorem missing_price_is_not_no_route:
  "PathOptimizerV2_findOptimalPath fresh_state 1 2 1000 1 2 =
     Inl (Revert ''Source token price not available'') \<and>
   PathOptimizerV2_findOptimalPath fresh_state 1 2 1000 1 2 \<noteq> Inl NO_VIABLE_ROUTE"
  by (simp add: findOptimalPathV2_source_unpriced fresh_state_def NO_VIABLE_ROUTE_def)

text \<open>
  C10, amended. A request whose source token has no recorded price on the source chain
  makes \<^verbatim>\<open>calculateExpectedOutput\<close>, and with it \<^verbatim>\<open>PathOptimizerV2.findOptimalPath\<close>, abort
  with the reason
  \<^verbatim>\<open>Source token price not available\<close>; when the source is priced and the target token
  has no recorded price on the target chain, with \<^verbatim>\<open>Target token price not available\<close>.
  No route is returned, and the missing price itself is the failure the caller receives.
\<close>

theorem missing_price_revert_reason:
  "(price (priceFeeds st s sc) = 0 \<longrightarrow>
      calculateExpectedOutput st s t a sc tc =
        Inl (Revert ''Source token price not available'') \<and>
      PathOptimizerV2_findOptimalPath st s t a sc tc =
        Inl (Revert ''Source token price not available'')) \<and>
   (price (priceFeeds st s sc) \<noteq> 0 \<and> price (priceFeeds st t tc) = 0 \<longrightarrow>
      calculateExpectedOutput st s t a sc tc =
        Inl (Revert ''Target token price not available'') \<and>
      PathOptimizerV2_findOptimalPath st s t a sc tc =
        Inl (Revert ''Target token price not available''))"
  by (simp add: findOptimalPathV2_source_unpriced findOptimalPathV2_target_unpriced
      calculateExpectedOutput_def Let_def word_greater_zero_iff)

theorem missing_price_revert_reason_witness:
  "price (priceFeeds fresh_state 1 1) = 0 \<and>
   PathOptimizerV2_findOptimalPath fresh_state 1 2 1000 1 2 =
     Inl (Revert ''Source token price not available'') \<and>
   price (priceFeeds priced_state 1 1) \<noteq> 0 \<and> price (priceFeeds priced_state 2 1) = 0 \<and>
   PathOptimizerV2_findOptimalPath priced_state 1 2 1000 1 1 =
     Inl (Revert ''Target token price not available'')"
proof -
  have a: "price (priceFeeds fresh_state 1 1) = 0"
    by (simp add: fresh_state_def)
  have b: "price (priceFeeds priced_state 1 1) \<noteq> 0"
    by (simp add: priced_state_1)
  have c: "price (priceFeeds priced_state 2 1) = 0"
    by (simp add: priced_state_def updatePriceFeed_def fresh_state_def)
  from a b c
    missing_price_revert_reason
      [where st = fresh_state and s = 1 and sc = 1 and t = 2 and tc = 2 and a = 1000]
    missing_price_revert_reason
      [where st = priced_state and s = 1 and sc = 1 and t = 2 and tc = 1 and a = 1000]
  show ?thesis by simp
qed

section \<open>Facts about the frontend selection\<close>

lemma pickBetter_cases: "pickBetter b c = b \<or> pickBetter b c = c"
  by (simp add: pickBetter_def Let_def)

lemma pickBetter_ge:
  "gasAdjustedValue b \<le> gasAdjustedValue (pickBetter b c)"
  "gasAdjustedValue c \<le> gasAdjustedValue (pickBetter b c)"
  by (simp_all add: pickBetter_def Let_def)

lemma foldl_pickBetter_in: "foldl pickBetter x xs \<in> set (x # xs)"
proof (induction xs arbitrary: x)
  case Nil
  then show ?case by simp
next
  case (Cons y ys)
  from Cons.IH [of "pickBetter x y"] pickBetter_cases [of x y]
  show ?case by auto
qed

lemma foldl_pickBetter_ge_init:
  "gasAdjustedValue x \<le> gasAdjustedValue (foldl pickBetter x xs)"
proof (induction xs arbitrary: x)
  case Nil
  then show ?case by simp
next
  case (Cons y ys)
  from Cons.IH [of "pickBetter x y"] pickBetter_ge(1) [of x y]
  show ?case by simp
qed

lemma foldl_pickBetter_max:
  "y \<in> set (x # xs) \<Longrightarrow> gasAdjustedValue y \<le> gasAdjustedValue (foldl pickBetter x xs)"
proof (induction xs arbitrary: x)
  case Nil
  then show ?case by simp
next
  case (Cons z zs)
  show ?case
  proof (cases "y \<in> set (pickBetter x z # zs)")
    case True
    with Cons.IH show ?thesis by simp
  next
    case False
    with Cons.prems have "y = x \<or> y = z" by auto
    then have "gasAdjustedValue y \<le> gasAdjustedValue (pickBetter x z)"
      using pickBetter_ge(1) [of x z] pickBetter_ge(2) [where b = x and c = z] by auto
    also have "\<dots> \<le> gasAdjustedValue (foldl pickBetter (pickBetter x z) zs)"
      by (rule foldl_pickBetter_ge_init)
    finally show ?thesis by simp
  qed
qed

lemma reduce_pickBetter_in: "qs \<noteq> [] \<Longrightarrow> reduce pickBetter qs \<in> set qs"
  using foldl_pickBetter_in [of "hd qs" "tl qs"] by (cases qs) (simp_all add: reduce_def)

lemma reduce_pickBetter_max:
  "q \<in> set qs \<Longrightarrow> gasAdjustedValue q \<le> gasAdjustedValue (reduce pickBetter qs)"
  using foldl_pickBetter_max [of q "hd qs" "tl qs"] by (cases qs) (simp_all add: reduce_def)

lemma foldl_pickBetter_first:
  "\<forall>q' \<in> set qs. gasAdjustedValue q' \<le> gasAdjustedValue q \<Longrightarrow> foldl pickBetter q qs = q"
  by (induction qs) (simp_all add: pickBetter_def Let_def)

lemma reduce_pickBetter_first:
  "\<forall>q' \<in> set qs. gasAdjustedValue q' \<le> gasAdjustedValue q \<Longrightarrow> reduce pickBetter (q # qs) = q"
  by (simp add: reduce_def foldl_pickBetter_first)

lemma reduce_pickBetter_strict:
  assumes "y \<in> set qs"
    and "\<forall>z \<in> set qs. z \<noteq> y \<longrightarrow> gasAdjustedValue z < gasAdjustedValue y"
  shows "reduce pickBetter qs = y"
proof (rule ccontr)
  assume ne: "reduce pickBetter qs \<noteq> y"
  from assms(1) have "qs \<noteq> []" by auto
  then have "reduce pickBetter qs \<in> set qs" by (rule reduce_pickBetter_in)
  with assms(2) ne have "gasAdjustedValue (reduce pickBetter qs) < gasAdjustedValue y" by blast
  moreover from assms(1) have "gasAdjustedValue y \<le> gasAdjustedValue (reduce pickBetter qs)"
    by (rule reduce_pickBetter_max)
  ultimately show False by simp
qed

lemma reduce_stable_under_raise:
  assumes k: "k < length qs" and sel: "reduce pickBetter qs = qs ! k"
    and up: "q_outputAmount (qs ! k) \<le> out"
  shows "reduce pickBetter (qs[k := (qs ! k)\<lparr>q_outputAmount := out\<rparr>]) =
         (qs ! k)\<lparr>q_outputAmount := out\<rparr>"
proof (cases "out = q_outputAmount (qs ! k)")
  case True
  then have "(qs ! k)\<lparr>q_outputAmount := out\<rparr> = qs ! k" by simp
  with sel show ?thesis by simp
next
  case False
  let ?y = "(qs ! k)\<lparr>q_outputAmount := out\<rparr>"
  let ?qs = "qs[k := ?y]"
  from False up have lt: "gasAdjustedValue (qs ! k) < gasAdjustedValue ?y"
    by (simp add: gasAdjustedValue_def)
  have "?y \<in> set ?qs" using k by (simp add: set_update_memI)
  moreover have "\<forall>z \<in> set ?qs. z \<noteq> ?y \<longrightarrow> gasAdjustedValue z < gasAdjustedValue ?y"
  proof (intro ballI impI)
    fix z assume z: "z \<in> set ?qs" and ne: "z \<noteq> ?y"
    from z obtain j where j: "j < length qs" and zj: "z = ?qs ! j"
      by (auto simp: in_set_conv_nth)
    with ne k have "j \<noteq> k" by auto
    with zj have "z = qs ! j" by simp
    with j have "z \<in> set qs" by simp
    then have "gasAdjustedValue z \<le> gasAdjustedValue (reduce pickBetter qs)"
      by (rule reduce_pickBetter_max)
    with sel lt show "gasAdjustedValue z < gasAdjustedValue ?y" by simp
  qed
  ultimately show ?thesis by (rule reduce_pickBetter_strict)
qed

lemma validQuotes_set:
  "q \<in> set (validQuotes env i o' amountIn) \<longleftrightarrow>
     (\<exists>p \<in> set (validPaths i o'). quotePath env amountIn p = Some q)"
  by (force simp: validQuotes_def List.map_filter_def image_iff)

lemma quotePath_Some:
  assumes "quotePath env amountIn p = Some q"
  shows "q_path q = map the p \<and> list_all (\<lambda>a. a \<noteq> None) p"
proof -
  from assms have la: "list_all (\<lambda>addr. case addr of None \<Rightarrow> False | Some a \<Rightarrow> isAddress env a) p"
    by (auto simp: quotePath_def split: if_splits)
  then have "list_all (\<lambda>a. a \<noteq> None) p"
    by (induction p) (auto split: option.splits)
  moreover from assms have "q_path q = map the p"
    by (auto simp: quotePath_def split: if_splits sum.splits)
  ultimately show ?thesis by simp
qed

lemma symbolOf_all: "list_all (\<lambda>(k, a). symbolOf a = k) TOKENS"
  by code_simp

lemma symbolOf_TOKENS:
  assumes "map_of TOKENS k = Some a"
  shows "symbolOf a = k"
proof -
  from assms have "(k, a) \<in> set TOKENS" by (rule map_of_SomeD)
  with symbolOf_all show ?thesis
    unfolding list_all_iff by blast
qed

lemma findBestRoute_Inr:
  assumes "findBestRoute env i o' a = Inr r"
  shows "\<exists>amountIn. parseEther env a = Inr amountIn \<and>
           validQuotes env i o' amountIn \<noteq> [] \<and>
           r = buildRoute env i o' a (reduce pickBetter (validQuotes env i o' amountIn))"
  using assms
  by (auto simp: findBestRoute_def bind_res_Inr_iff Let_def split: if_splits)

lemma validPaths_cases:
  "p \<in> set (validPaths i o') \<Longrightarrow>
     p = [map_of TOKENS i, map_of TOKENS ''WETH'', map_of TOKENS o'] \<or>
     p = [map_of TOKENS i, map_of TOKENS o']"
proof -
  assume "p \<in> set (validPaths i o')"
  then have "p \<in> set (candidatePaths i o')" by (simp add: validPaths_def)
  then show ?thesis by (simp add: candidatePaths_def)
qed

lemma validQuotes_path:
  assumes "q \<in> set (validQuotes env i o' amountIn)"
  shows "\<exists>x y. map_of TOKENS i = Some x \<and> map_of TOKENS o' = Some y \<and>
           (q_path q = [x, the (map_of TOKENS ''WETH''), y] \<or> q_path q = [x, y])"
proof -
  from assms obtain p where p: "p \<in> set (validPaths i o')"
    and q: "quotePath env amountIn p = Some q"
    by (auto simp: validQuotes_set)
  from quotePath_Some [OF q] have qp: "q_path q = map the p"
    and la: "list_all (\<lambda>a. a \<noteq> None) p" by simp_all
  from validPaths_cases [OF p] show ?thesis
  proof
    assume "p = [map_of TOKENS i, map_of TOKENS ''WETH'', map_of TOKENS o']"
    with la qp show ?thesis by auto
  next
    assume "p = [map_of TOKENS i, map_of TOKENS o']"
    with la qp show ?thesis by auto
  qed
qed

lemma validQuotes_symbols:
  assumes "q \<in> set (validQuotes env i o' amountIn)"
  shows "q_path q \<noteq> [] \<and> map_of TOKENS i = Some (hd (q_path q)) \<and>
         map_of TOKENS o' = Some (last (q_path q)) \<and>
         hd (map symbolOf (q_path q)) = i \<and> last (map symbolOf (q_path q)) = o'"
proof -
  from validQuotes_path [OF assms] obtain x y where
    x: "map_of TOKENS i = Some x" and y: "map_of TOKENS o' = Some y" and
    c: "q_path q = [x, the (map_of TOKENS ''WETH''), y] \<or> q_path q = [x, y]"
    by blast
  from x have sx: "symbolOf x = i" by (rule symbolOf_TOKENS)
  from y have sy: "symbolOf y = o'" by (rule symbolOf_TOKENS)
  from c x y sx sy show ?thesis by auto
qed


section \<open>Facts about the analytics scoring\<close>

lemma map_res_Inr:
  "map_res f xs = Inr ys \<Longrightarrow> list_all2 (\<lambda>x y. f x = Inr y) xs ys"
  by (induction xs arbitrary: ys) (auto simp: bind_res_Inr_iff)

lemma sort_key_head_least:
  assumes "sort_key f xs = y # ys" and "x \<in> set xs"
  shows "f y \<le> f x"
proof -
  have "sorted (map f (sort_key f xs))" by (rule sorted_sort_key)
  with assms(1) have "\<forall>z \<in> set ys. f y \<le> f z" by simp
  moreover have "x \<in> set (sort_key f xs)" using assms(2) by simp
  ultimately show ?thesis using assms(1) by auto
qed

lemma findBestRoute_analytics_Some:
  assumes "findBestRoute_analytics env i o' amt = Inr (Some r)"
  shows "\<exists>scored. map_res scoreRoute (queryRoutes env i o' amt) = Inr scored \<and>
           length scored = length (queryRoutes env i o' amt) \<and>
           r \<in> set scored \<and> (\<forall>r' \<in> set scored. priority_score r' \<le> priority_score r)"
proof -
  from assms obtain scored where
    m: "map_res scoreRoute (queryRoutes env i o' amt) = Inr scored" and
    h: "(case sort_key (\<lambda>r. - priority_score r) scored of [] \<Rightarrow> None | best # rest \<Rightarrow> Some best) = Some r"
    by (auto simp: findBestRoute_analytics_def calculatePriorityScores_def bind_res_Inr_iff Let_def)
  from h obtain rest where s: "sort_key (\<lambda>r. - priority_score r) scored = r # rest"
    by (auto split: list.splits)
  have "r \<in> set (sort_key (\<lambda>r. - priority_score r) scored)" using s by simp
  then have rin: "r \<in> set scored" by simp
  have "\<forall>r' \<in> set scored. priority_score r' \<le> priority_score r"
    using sort_key_head_least [OF s] by fastforce
  moreover from map_res_Inr [OF m] have "length scored = length (queryRoutes env i o' amt)"
    by (simp add: list_all2_lengthD)
  ultimately show ?thesis using m rin by blast
qed

lemma bigint_div_mono:
  assumes "0 < b" and "a1 \<le> a2"
  shows "\<exists>q1 q2. bigint_div a1 b = Inr q1 \<and> bigint_div a2 b = Inr q2 \<and> q1 \<le> q2"
proof -
  have t: "\<And>a. sgn a * sgn b * (\<bar>a\<bar> div \<bar>b\<bar>) = (if 0 \<le> a then a div b else - ((- a) div b))"
    using assms(1) by (auto simp: sgn_if)
  have "(if 0 \<le> a1 then a1 div b else - ((- a1) div b)) \<le>
        (if 0 \<le> a2 then a2 div b else - ((- a2) div b))"
  proof (cases "0 \<le> a1")
    case True
    with assms show ?thesis by (simp add: zdiv_mono1)
  next
    case n1: False
    show ?thesis
    proof (cases "0 \<le> a2")
      case True
      have "0 \<le> (- a1) div b" using n1 assms(1) by (simp add: pos_imp_zdiv_nonneg_iff)
      moreover have "0 \<le> a2 div b" using True assms(1) by (simp add: pos_imp_zdiv_nonneg_iff)
      ultimately show ?thesis using n1 True by simp
    next
      case False
      have "(- a2) div b \<le> (- a1) div b" using assms by (simp add: zdiv_mono1)
      with n1 False show ?thesis by simp
    qed
  qed
  with assms(1) show ?thesis unfolding bigint_div_def t by simp
qed

lemma scoreRoute_mono:
  assumes "0 < input_amount q" and "o1 \<le> o2"
  shows "\<exists>s1 s2. scoreRoute (route\<lparr>quote := Some (q\<lparr>output_amount := o1\<rparr>)\<rparr>) = Inr s1 \<and>
           scoreRoute (route\<lparr>quote := Some (q\<lparr>output_amount := o2\<rparr>)\<rparr>) = Inr s2 \<and>
           priority_score s1 \<le> priority_score s2"
proof -
  from assms(2) have "o1 * 400 \<le> o2 * 400" by simp
  from bigint_div_mono [OF assms(1) this] obtain q1 q2 where
    "bigint_div (o1 * 400) (input_amount q) = Inr q1"
    "bigint_div (o2 * 400) (input_amount q) = Inr q2" "q1 \<le> q2" by blast
  then show ?thesis
    by (simp add: scoreRoute_def bind_res_def Let_def)
qed

lemma hd_insort_key:
  "hd (insort_key g x zs) = (if zs = [] \<or> g x \<le> g (hd zs) then x else hd zs)"
  by (cases zs) auto

lemma hd_sort_key_Cons:
  "hd (sort_key g (x # xs)) =
     (if xs = [] \<or> g x \<le> g (hd (sort_key g xs)) then x else hd (sort_key g xs))"
proof -
  have "sort_key g xs = [] \<longleftrightarrow> xs = []"
    by (metis length_sort list.size(3) length_0_conv)
  then show ?thesis by (simp add: hd_insort_key)
qed

lemma hd_sort_key_in: "xs \<noteq> [] \<Longrightarrow> hd (sort_key g xs) \<in> set xs"
  by (metis hd_in_set length_sort length_0_conv set_sort)

lemma hd_sort_key_raise:
  fixes g :: "'a \<Rightarrow> real"
  assumes "k < length xs" and "hd (sort_key g xs) = xs ! k"
    and "\<forall>j<k. xs ! j \<noteq> xs ! k" and "g y \<le> g (xs ! k)"
  shows "hd (sort_key g (xs[k := y])) = y"
  using assms
proof (induction xs arbitrary: k)
  case Nil
  then show ?case by simp
next
  case (Cons x xs)
  show ?case
  proof (cases k)
    case 0
    with Cons.prems have hx: "hd (sort_key g (x # xs)) = x" and gy: "g y \<le> g x" by simp_all
    show ?thesis
    proof (cases "xs = []")
      case True
      with 0 show ?thesis by simp
    next
      case False
      have "g x \<le> g (hd (sort_key g xs))"
      proof (rule ccontr)
        assume n: "\<not> g x \<le> g (hd (sort_key g xs))"
        with hx False have "hd (sort_key g xs) = x"
          by (simp add: hd_sort_key_Cons del: sort_key_simps)
        with n show False by simp
      qed
      with gy have "g y \<le> g (hd (sort_key g xs))" by simp
      with 0 show ?thesis by (simp add: hd_sort_key_Cons del: sort_key_simps)
    qed
  next
    case (Suc k')
    with Cons.prems have k': "k' < length xs" and ne: "x \<noteq> xs ! k'"
      and hx: "hd (sort_key g (x # xs)) = xs ! k'" and gy: "g y \<le> g (xs ! k')"
      and dj: "\<forall>j<k'. xs ! j \<noteq> xs ! k'"
      by auto
    from k' have nn: "xs \<noteq> []" by auto
    from hx ne nn have h: "hd (sort_key g xs) = xs ! k'" and lt: "\<not> g x \<le> g (hd (sort_key g xs))"
      by (auto simp: hd_sort_key_Cons simp del: sort_key_simps split: if_splits)
    from Cons.IH [OF k' h dj gy] have ih: "hd (sort_key g (xs[k' := y])) = y" .
    from lt h gy have "\<not> g x \<le> g y" by simp
    with ih nn Suc show ?thesis by (simp add: hd_sort_key_Cons del: sort_key_simps)
  qed
qed

lemma map_res_update:
  "map_res f xs = Inr ys \<Longrightarrow> k < length xs \<Longrightarrow> f x' = Inr y' \<Longrightarrow>
   map_res f (xs[k := x']) = Inr (ys[k := y'])"
proof (induction xs arbitrary: ys k)
  case Nil
  then show ?case by simp
next
  case (Cons x xs)
  then show ?case
    by (cases k) (auto simp: bind_res_Inr_iff)
qed

lemma scoreRoute_protocol: "scoreRoute r = Inr s \<Longrightarrow> protocol s = protocol r"
  by (auto simp: scoreRoute_def Let_def bind_res_Inr_iff split: option.splits)

lemma scored_distinct:
  assumes "map_res scoreRoute routes = Inr scored" and "distinct (map protocol routes)"
    and "j < length routes" and "k < length routes" and "j \<noteq> k"
  shows "scored ! j \<noteq> scored ! k"
proof -
  from map_res_Inr [OF assms(1)] have l2: "list_all2 (\<lambda>x y. scoreRoute x = Inr y) routes scored" .
  then have "protocol (scored ! j) = protocol (routes ! j)"
    and "protocol (scored ! k) = protocol (routes ! k)"
    using assms(3,4) by (auto simp: list_all2_conv_all_nth scoreRoute_protocol)
  moreover from assms(2-5) have "protocol (routes ! j) \<noteq> protocol (routes ! k)"
    by (simp add: distinct_conv_nth)
  ultimately show ?thesis by auto
qed

lemma calculatePriorityScores_raise:
  assumes m: "map_res scoreRoute routes = Inr scored"
    and d: "distinct (map protocol routes)"
    and k: "k < length routes"
    and q: "quote (routes ! k) = Some rq" and pos: "0 < input_amount rq"
    and up: "output_amount rq \<le> out"
    and sel: "calculatePriorityScores routes = Inr (scored ! k # rest)"
  shows "\<exists>s rest'.
           scoreRoute ((routes ! k)\<lparr>quote := Some (rq\<lparr>output_amount := out\<rparr>)\<rparr>) = Inr s \<and>
           calculatePriorityScores
             (routes[k := (routes ! k)\<lparr>quote := Some (rq\<lparr>output_amount := out\<rparr>)\<rparr>]) =
             Inr (s # rest')"
proof -
  let ?g = "\<lambda>r::scored_route. - priority_score r"
  let ?r' = "(routes ! k)\<lparr>quote := Some (rq\<lparr>output_amount := out\<rparr>)\<rparr>"
  from map_res_Inr [OF m] have l2: "list_all2 (\<lambda>x y. scoreRoute x = Inr y) routes scored" .
  then have len: "length scored = length routes" by (simp add: list_all2_lengthD)
  from l2 k have sk: "scoreRoute (routes ! k) = Inr (scored ! k)"
    by (simp add: list_all2_conv_all_nth)
  have same: "(routes ! k)\<lparr>quote := Some (rq\<lparr>output_amount := output_amount rq\<rparr>)\<rparr> = routes ! k"
    using q by simp
  from scoreRoute_mono [OF pos up, of "routes ! k"] same sk
  obtain s where s: "scoreRoute ?r' = Inr s" and le: "priority_score (scored ! k) \<le> priority_score s"
    by auto
  from sel m have srt: "sort_key ?g scored = scored ! k # rest"
    by (simp add: calculatePriorityScores_def bind_res_def)
  then have hd: "hd (sort_key ?g scored) = scored ! k" by simp
  have dj: "\<forall>j<k. scored ! j \<noteq> scored ! k"
    using scored_distinct [OF m d] k by auto
  from k len have k': "k < length scored" by simp
  from le have gle: "?g s \<le> ?g (scored ! k)" by simp
  from hd_sort_key_raise [OF k' hd dj gle]
  have h': "hd (sort_key ?g (scored[k := s])) = s" .
  have "sort_key ?g (scored[k := s]) \<noteq> []"
    using k' by (metis length_sort length_list_update length_0_conv less_nat_zero_code list.size(3))
  with h' obtain rest' where "sort_key ?g (scored[k := s]) = s # rest'"
    by (cases "sort_key ?g (scored[k := s])") auto
  moreover have "map_res scoreRoute (routes[k := ?r']) = Inr (scored[k := s])"
    using m k s by (rule map_res_update)
  ultimately have "calculatePriorityScores (routes[k := ?r']) = Inr (s # rest')"
    by (simp add: calculatePriorityScores_def bind_res_def)
  with s show ?thesis by blast
qed

lemma historyOf_curve: "historyOf ''curve'' = None"
  by (simp add: historyOf_def historicalData_def PROTOCOLS_def)

lemma historyOf_other: "p \<noteq> ''uniswap_v3'' \<Longrightarrow> historyOf p = None"
  by (auto simp: historyOf_def historicalData_def PROTOCOLS_def)

lemma reliabilityScore_uniswap_v3: "reliabilityScore (historyOf ''uniswap_v3'') = 10000 / 11"
  by (simp add: historyOf_def historicalData_def PROTOCOLS_def reliabilityScore_def)

section \<open>Concrete runs\<close>

lemma flat_eval:
  "findBestRoute flat_env ''PYUSD'' ''USDC'' ''1'' =
     Inr \<lparr>route_protocol = ''Uniswap V2'', route_input_token = ''PYUSD'',
          route_output_token = ''USDC'', route_input_amount = ''1'',
          route_output_amount = ''1.0'', route_gas_cost = ''0.0'',
          route_execution_time = 24, route_path = ''PYUSD -> USDC''\<rparr>"
  by code_simp

lemma tie_eval:
  "findBestRoute tie_env ''PYUSD'' ''USDC'' ''1'' =
     Inr \<lparr>route_protocol = ''Uniswap V2'', route_input_token = ''PYUSD'',
          route_output_token = ''USDC'', route_input_amount = ''1'',
          route_output_amount = ''1.0'', route_gas_cost = ''0.0'',
          route_execution_time = 24, route_path = ''PYUSD -> WETH -> USDC''\<rparr>"
  by code_simp

lemma tie_quotes:
  "validQuotes tie_env ''PYUSD'' ''USDC'' 1000000000000000000 =
     [\<lparr>q_path = [''0x610178dA211FEF7D417bC0e6FeD39F05609AD788'',
                  ''0xC02aaA39b223FE8D0A0e5C4F27eAD9083C756Cc2'',
                  ''0xA0b86991c6218b36c1d19D4a2e9Eb0cE3606eB48''],
       q_outputAmount = 1000000000000000000, q_gasEstimate = 100000\<rparr>,
      \<lparr>q_path = [''0x610178dA211FEF7D417bC0e6FeD39F05609AD788'',
                  ''0xA0b86991c6218b36c1d19D4a2e9Eb0cE3606eB48''],
       q_outputAmount = 1000000000000000000, q_gasEstimate = 100000\<rparr>]"
  by code_simp

lemma dead_eval:
  "findBestRoute dead_env ''PYUSD'' ''USDC'' ''1'' = Inl (Error ''No valid routes found'')"
  by code_simp

lemma live_eval:
  "findBestRoute_analytics live_rpc PYUSD_MAINNET USDC_MAINNET 1000000 =
     Inr (Some \<lparr>protocol = ''uniswap_v3'',
          quote = Some \<lparr>input_token = PYUSD_MAINNET, output_token = USDC_MAINNET,
                input_amount = 1000000, output_amount = 995000,
                gas_cost = 120000, execution_time = 2.2, slippage = 0.003,
                path = PYUSD_MAINNET @ '' -> '' @ USDC_MAINNET,
                route_id = (''UNIV3_'', 1700000000000)\<rparr>,
          timestamp = 1700000000000,
          priority_score = 1201751211 / 4400000\<rparr>)"
  by code_simp

lemma split_eval:
  "getSplitPath split_state 1 2 2000000000000000000 1 2 =
     Inr \<lparr>dexs = [UNISWAP_V2_MAINNET, UNISWAP_V2_MAINNET], chains = [1, 1, 2],
          bridges = [LAYERZERO_SEPOLIA, LAYERZERO_SEPOLIA],
          estimatedGas = 800000, expectedOutput = 3800000000000000000\<rparr>"
  by code_simp

section \<open>Selection of the best route\<close>

text \<open>
  C1. The route returned by the frontend \<^verbatim>\<open>findBestRoute\<close> is built from one of the quotes
  that survived quoting, and no surviving quote has a larger gas-adjusted value (output
  minus gas at 50 gwei). The route returned by the analytics \<^verbatim>\<open>findBestRoute\<close> is one of
  the scored routes, one per queried route, and no scored route has a larger priority
  score.
\<close>

theorem findBestRoute_returns_maximum:
  "(\<forall>r. findBestRoute env i o' a = Inr r \<longrightarrow>
     (\<exists>amountIn q. parseEther env a = Inr amountIn \<and>
        q \<in> set (validQuotes env i o' amountIn) \<and>
        r = buildRoute env i o' a q \<and>
        (\<forall>q' \<in> set (validQuotes env i o' amountIn).
           gasAdjustedValue q' \<le> gasAdjustedValue q))) \<and>
   (\<forall>r. findBestRoute_analytics renv ti to amt = Inr (Some r) \<longrightarrow>
     (\<exists>scored. map_res scoreRoute (queryRoutes renv ti to amt) = Inr scored \<and>
        length scored = length (queryRoutes renv ti to amt) \<and>
        r \<in> set scored \<and>
        (\<forall>r' \<in> set scored. priority_score r' \<le> priority_score r)))"
proof (intro conjI allI impI)
  fix r
  assume "findBestRoute env i o' a = Inr r"
  from findBestRoute_Inr [OF this] obtain amountIn where
    pe: "parseEther env a = Inr amountIn" and ne: "validQuotes env i o' amountIn \<noteq> []"
    and r: "r = buildRoute env i o' a (reduce pickBetter (validQuotes env i o' amountIn))"
    by blast
  let ?q = "reduce pickBetter (validQuotes env i o' amountIn)"
  have "?q \<in> set (validQuotes env i o' amountIn)" using ne by (rule reduce_pickBetter_in)
  moreover have "\<forall>q' \<in> set (validQuotes env i o' amountIn).
      gasAdjustedValue q' \<le> gasAdjustedValue ?q"
    by (simp add: reduce_pickBetter_max)
  ultimately show "\<exists>amountIn q. parseEther env a = Inr amountIn \<and>
        q \<in> set (validQuotes env i o' amountIn) \<and>
        r = buildRoute env i o' a q \<and>
        (\<forall>q' \<in> set (validQuotes env i o' amountIn).
           gasAdjustedValue q' \<le> gasAdjustedValue q)"
    using pe r by blast
next
  fix r
  assume "findBestRoute_analytics renv ti to amt = Inr (Some r)"
  then show "\<exists>scored. map_res scoreRoute (queryRoutes renv ti to amt) = Inr scored \<and>
        length scored = length (queryRoutes renv ti to amt) \<and>
        r \<in> set scored \<and>
        (\<forall>r' \<in> set scored. priority_score r' \<le> priority_score r)"
    by (rule findBestRoute_analytics_Some)
qed

theorem findBestRoute_returns_maximum_witness:
  "findBestRoute flat_env ''PYUSD'' ''USDC'' ''1'' =
     Inr \<lparr>route_protocol = ''Uniswap V2'', route_input_token = ''PYUSD'',
          route_output_token = ''USDC'', route_input_amount = ''1'',
          route_output_amount = ''1.0'', route_gas_cost = ''0.0'',
          route_execution_time = 24, route_path = ''PYUSD -> USDC''\<rparr> \<and>
   (\<exists>amountIn q. parseEther flat_env ''1'' = Inr amountIn \<and>
      q \<in> set (validQuotes flat_env ''PYUSD'' ''USDC'' amountIn) \<and>
      list_all (\<lambda>q'. gasAdjustedValue q' \<le> gasAdjustedValue q)
        (validQuotes flat_env ''PYUSD'' ''USDC'' amountIn)) \<and>
   (\<exists>r scored. findBestRoute_analytics live_rpc PYUSD_MAINNET USDC_MAINNET 1000000 =
        Inr (Some r) \<and> protocol r = ''uniswap_v3'' \<and> r \<in> set scored \<and> length scored = 2 \<and>
      list_all (\<lambda>r'. priority_score r' \<le> priority_score r) scored)"
proof -
  have two: "length (queryRoutes live_rpc PYUSD_MAINNET USDC_MAINNET 1000000) = 2"
    by code_simp
  from findBestRoute_returns_maximum
    [where env = flat_env and i = "''PYUSD''" and o' = "''USDC''" and a = "''1''"
       and renv = live_rpc and ti = PYUSD_MAINNET and to = USDC_MAINNET and amt = 1000000]
  show ?thesis
    unfolding flat_eval live_eval list_all_iff using two by fastforce
qed

section \<open>Further facts about the routes\<close>

lemma validQuotes_two:
  assumes "validQuotes env i o' amountIn = [qw, qd]"
  shows "length (q_path qw) = 3 \<and> length (q_path qd) = 2"
proof -
  let ?pw = "[map_of TOKENS i, map_of TOKENS ''WETH'', map_of TOKENS o']"
  let ?pd = "[map_of TOKENS i, map_of TOKENS o']"
  from assms have "quotePath env amountIn ?pw = Some qw \<and> quotePath env amountIn ?pd = Some qd"
    by (auto simp: validQuotes_def validPaths_def candidatePaths_def
        split: if_splits option.splits)
  then show ?thesis
    using quotePath_Some [of env amountIn ?pw qw] quotePath_Some [of env amountIn ?pd qd]
    by simp
qed

lemma validQuotes_none:
  assumes "list_all (\<lambda>p. quotePath env amountIn p = None) (validPaths i o')"
  shows "validQuotes env i o' amountIn = []"
proof (rule ccontr)
  assume "validQuotes env i o' amountIn \<noteq> []"
  then obtain q where "q \<in> set (validQuotes env i o' amountIn)"
    by (cases "validQuotes env i o' amountIn") auto
  then obtain p where "p \<in> set (validPaths i o')" and "quotePath env amountIn p = Some q"
    unfolding validQuotes_set by blast
  with assms show False by (simp add: list_all_iff)
qed

lemma dead_quotes:
  "list_all (\<lambda>p. quotePath dead_env n p = None) (validPaths i o')"
  by (simp add: list_all_iff quotePath_def dead_env_def)

section \<open>Ties\<close>

text \<open>
  C5, as stated, fails. With one gas estimate and one output for both paths the two
  candidates have the same gas-adjusted value, and \<^verbatim>\<open>findBestRoute\<close> returns the route
  through WETH, which has two hops, not the direct route, which has one.
\<close>

theorem tie_returns_longer_route:
  "findBestRoute tie_env ''PYUSD'' ''USDC'' ''1'' =
     Inr \<lparr>route_protocol = ''Uniswap V2'', route_input_token = ''PYUSD'',
          route_output_token = ''USDC'', route_input_amount = ''1'',
          route_output_amount = ''1.0'', route_gas_cost = ''0.0'',
          route_execution_time = 24, route_path = ''PYUSD -> WETH -> USDC''\<rparr> \<and>
   validQuotes tie_env ''PYUSD'' ''USDC'' 1000000000000000000 =
     [\<lparr>q_path = [''0x610178dA211FEF7D417bC0e6FeD39F05609AD788'',
                  ''0xC02aaA39b223FE8D0A0e5C4F27eAD9083C756Cc2'',
                  ''0xA0b86991c6218b36c1d19D4a2e9Eb0cE3606eB48''],
       q_outputAmount = 1000000000000000000, q_gasEstimate = 100000\<rparr>,
      \<lparr>q_path = [''0x610178dA211FEF7D417bC0e6FeD39F05609AD788'',
                  ''0xA0b86991c6218b36c1d19D4a2e9Eb0cE3606eB48''],
       q_outputAmount = 1000000000000000000, q_gasEstimate = 100000\<rparr>] \<and>
   gasAdjustedValue
     \<lparr>q_path = [''0x610178dA211FEF7D417bC0e6FeD39F05609AD788'',
                 ''0xC02aaA39b223FE8D0A0e5C4F27eAD9083C756Cc2'',
                 ''0xA0b86991c6218b36c1d19D4a2e9Eb0cE3606eB48''],
      q_outputAmount = 1000000000000000000, q_gasEstimate = 100000\<rparr> =
   gasAdjustedValue
     \<lparr>q_path = [''0x610178dA211FEF7D417bC0e6FeD39F05609AD788'',
                 ''0xA0b86991c6218b36c1d19D4a2e9Eb0cE3606eB48''],
      q_outputAmount = 1000000000000000000, q_gasEstimate = 100000\<rparr>"
  by (simp add: tie_eval tie_quotes gasAdjustedValue_def)

text \<open>
  C5, amended. \<^verbatim>\<open>findBestRoute\<close> has no tie-break on the number of hops: the
  \<^verbatim>\<open>reduce\<close> replaces its best quote only by a strictly better one, so the first
  surviving candidate is returned whenever no later candidate has a strictly larger
  gas-adjusted value. The candidates are listed with the path through WETH first: when
  both paths are quoted, the first candidate has three path entries (two hops) and the
  second has two (one hop), and on a tie the two-hop route is returned.
\<close>

theorem tie_keeps_first_candidate:
  "(\<forall>r. findBestRoute env i o' a = Inr r \<and> parseEther env a = Inr amountIn \<and>
        validQuotes env i o' amountIn = q # qs \<and>
        (\<forall>q' \<in> set qs. gasAdjustedValue q' \<le> gasAdjustedValue q) \<longrightarrow>
        r = buildRoute env i o' a q) \<and>
   (validQuotes env i o' amountIn = [qw, qd] \<longrightarrow>
      length (q_path qw) = 3 \<and> length (q_path qd) = 2)"
proof (intro conjI allI impI)
  fix r
  assume h: "findBestRoute env i o' a = Inr r \<and> parseEther env a = Inr amountIn \<and>
        validQuotes env i o' amountIn = q # qs \<and>
        (\<forall>q' \<in> set qs. gasAdjustedValue q' \<le> gasAdjustedValue q)"
  from findBestRoute_Inr [of env i o' a r] h
  have "r = buildRoute env i o' a (reduce pickBetter (q # qs))" by auto
  also from h have "reduce pickBetter (q # qs) = q" by (simp add: reduce_pickBetter_first)
  finally show "r = buildRoute env i o' a q" .
next
  assume "validQuotes env i o' amountIn = [qw, qd]"
  then show "length (q_path qw) = 3" and "length (q_path qd) = 2"
    by (simp_all add: validQuotes_two)
qed

theorem tie_keeps_first_candidate_witness:
  "findBestRoute tie_env ''PYUSD'' ''USDC'' ''1'' =
     Inr (buildRoute tie_env ''PYUSD'' ''USDC'' ''1''
       \<lparr>q_path = [''0x610178dA211FEF7D417bC0e6FeD39F05609AD788'',
                  ''0xC02aaA39b223FE8D0A0e5C4F27eAD9083C756Cc2'',
                  ''0xA0b86991c6218b36c1d19D4a2e9Eb0cE3606eB48''],
        q_outputAmount = 1000000000000000000, q_gasEstimate = 100000\<rparr>)"
proof -
  have pe: "parseEther tie_env ''1'' = Inr 1000000000000000000"
    by (simp add: tie_env_def flat_env_def)
  from tie_keeps_first_candidate
    [where env = tie_env and i = "''PYUSD''" and o' = "''USDC''" and a = "''1''"
       and amountIn = 1000000000000000000
       and q = "\<lparr>q_path = [''0x610178dA211FEF7D417bC0e6FeD39F05609AD788'',
                  ''0xC02aaA39b223FE8D0A0e5C4F27eAD9083C756Cc2'',
                  ''0xA0b86991c6218b36c1d19D4a2e9Eb0cE3606eB48''],
        q_outputAmount = 1000000000000000000, q_gasEstimate = 100000\<rparr>"
       and qs = "[\<lparr>q_path = [''0x610178dA211FEF7D417bC0e6FeD39F05609AD788'',
                  ''0xA0b86991c6218b36c1d19D4a2e9Eb0cE3606eB48''],
       q_outputAmount = 1000000000000000000, q_gasEstimate = 100000\<rparr>]"]
  show ?thesis
    by (simp add: tie_eval tie_quotes pe gasAdjustedValue_def)
qed

section \<open>Monotonicity in the output amount\<close>

text \<open>
  C7. Raising the output of a candidate, all else fixed, never lowers its score: the
  gas-adjusted value of the frontend grows with the output, and so does the priority
  score of the analytics class for a route with a positive input amount (a zero input
  amount makes the \<^verbatim>\<open>bigint\<close> division throw for every output). A candidate that the
  frontend \<^verbatim>\<open>reduce\<close> selects is still selected after its output has been raised, so no
  route it beat is selected in its place; the same holds for the head of the list that
  \<^verbatim>\<open>calculatePriorityScores\<close> sorts, for routes of pairwise distinct protocols.
\<close>

theorem raising_output_never_hurts:
  "(o1 \<le> o2 \<longrightarrow>
      gasAdjustedValue (pq\<lparr>q_outputAmount := o1\<rparr>) \<le>
      gasAdjustedValue (pq\<lparr>q_outputAmount := o2\<rparr>)) \<and>
   (0 < input_amount rq \<and> o1 \<le> o2 \<longrightarrow>
      (\<exists>s1 s2.
         scoreRoute (route\<lparr>quote := Some (rq\<lparr>output_amount := o1\<rparr>)\<rparr>) = Inr s1 \<and>
         scoreRoute (route\<lparr>quote := Some (rq\<lparr>output_amount := o2\<rparr>)\<rparr>) = Inr s2 \<and>
         priority_score s1 \<le> priority_score s2)) \<and>
   (k < length qs \<and> reduce pickBetter qs = qs ! k \<and> q_outputAmount (qs ! k) \<le> out \<longrightarrow>
      reduce pickBetter (qs[k := (qs ! k)\<lparr>q_outputAmount := out\<rparr>]) =
        (qs ! k)\<lparr>q_outputAmount := out\<rparr>) \<and>
   (map_res scoreRoute routes = Inr scored \<and> distinct (map protocol routes) \<and>
    n < length routes \<and> quote (routes ! n) = Some nq \<and> 0 < input_amount nq \<and>
    output_amount nq \<le> raised \<and>
    calculatePriorityScores routes = Inr (scored ! n # rest) \<longrightarrow>
      (\<exists>s rest'.
         scoreRoute ((routes ! n)\<lparr>quote := Some (nq\<lparr>output_amount := raised\<rparr>)\<rparr>) = Inr s \<and>
         calculatePriorityScores
           (routes[n := (routes ! n)\<lparr>quote := Some (nq\<lparr>output_amount := raised\<rparr>)\<rparr>]) =
           Inr (s # rest')))"
proof (intro conjI impI)
  assume "o1 \<le> o2"
  then show "gasAdjustedValue (pq\<lparr>q_outputAmount := o1\<rparr>) \<le>
      gasAdjustedValue (pq\<lparr>q_outputAmount := o2\<rparr>)"
    by (simp add: gasAdjustedValue_def)
next
  assume "0 < input_amount rq \<and> o1 \<le> o2"
  then show "\<exists>s1 s2.
         scoreRoute (route\<lparr>quote := Some (rq\<lparr>output_amount := o1\<rparr>)\<rparr>) = Inr s1 \<and>
         scoreRoute (route\<lparr>quote := Some (rq\<lparr>output_amount := o2\<rparr>)\<rparr>) = Inr s2 \<and>
         priority_score s1 \<le> priority_score s2"
    using scoreRoute_mono [of rq o1 o2 route] by simp
next
  assume "k < length qs \<and> reduce pickBetter qs = qs ! k \<and> q_outputAmount (qs ! k) \<le> out"
  then show "reduce pickBetter (qs[k := (qs ! k)\<lparr>q_outputAmount := out\<rparr>]) =
        (qs ! k)\<lparr>q_outputAmount := out\<rparr>"
    using reduce_stable_under_raise [of k qs out] by simp
next
  assume "map_res scoreRoute routes = Inr scored \<and> distinct (map protocol routes) \<and>
    n < length routes \<and> quote (routes ! n) = Some nq \<and> 0 < input_amount nq \<and>
    output_amount nq \<le> raised \<and>
    calculatePriorityScores routes = Inr (scored ! n # rest)"
  then show "\<exists>s rest'.
         scoreRoute ((routes ! n)\<lparr>quote := Some (nq\<lparr>output_amount := raised\<rparr>)\<rparr>) = Inr s \<and>
         calculatePriorityScores
           (routes[n := (routes ! n)\<lparr>quote := Some (nq\<lparr>output_amount := raised\<rparr>)\<rparr>]) =
           Inr (s # rest')"
    using calculatePriorityScores_raise [of routes scored n nq raised rest] by simp
qed

theorem raising_output_never_hurts_witness:
  "gasAdjustedValue (quoteA\<lparr>q_outputAmount := 1000\<rparr>) \<le>
     gasAdjustedValue (quoteA\<lparr>q_outputAmount := 2000\<rparr>) \<and>
   (\<exists>s1 s2.
      scoreRoute (curveRoute\<lparr>quote := Some (curveQuoted\<lparr>output_amount := 1000\<rparr>)\<rparr>) = Inr s1 \<and>
      scoreRoute (curveRoute\<lparr>quote := Some (curveQuoted\<lparr>output_amount := 2000\<rparr>)\<rparr>) = Inr s2 \<and>
      priority_score s1 \<le> priority_score s2) \<and>
   reduce pickBetter [quoteB, quoteA] = quoteA \<and>
   reduce pickBetter [quoteB, quoteA\<lparr>q_outputAmount := 2000\<rparr>] =
     quoteA\<lparr>q_outputAmount := 2000\<rparr> \<and>
   calculatePriorityScores [curveRoute, v3Route] = Inr [v3Scored, curveScored] \<and>
   (\<exists>s rest'.
      scoreRoute (v3Route\<lparr>quote := Some (v3Quoted\<lparr>output_amount := 2000\<rparr>)\<rparr>) = Inr s \<and>
      calculatePriorityScores
        [curveRoute, v3Route\<lparr>quote := Some (v3Quoted\<lparr>output_amount := 2000\<rparr>)\<rparr>] =
        Inr (s # rest'))"
proof -
  have ms: "map_res scoreRoute [curveRoute, v3Route] = Inr [curveScored, v3Scored]"
    by code_simp
  have cs: "calculatePriorityScores [curveRoute, v3Route] = Inr [v3Scored, curveScored]"
    by code_simp
  have di: "distinct (map protocol [curveRoute, v3Route])"
    by (simp add: curveRoute_def v3Route_def)
  have qn: "quote ([curveRoute, v3Route] ! 1) = Some v3Quoted"
    by (simp add: v3Route_def)
  have pn: "0 < input_amount v3Quoted" and un: "output_amount v3Quoted \<le> 2000"
    by (simp_all add: v3Quoted_def)
  have sel: "reduce pickBetter [quoteB, quoteA] = [quoteB, quoteA] ! 1"
    by (simp add: reduce_def pickBetter_def gasAdjustedValue_def quoteA_def quoteB_def)
  have le: "q_outputAmount ([quoteB, quoteA] ! 1) \<le> 2000"
    by (simp add: quoteA_def)
  have pos: "0 < input_amount curveQuoted"
    by (simp add: curveQuoted_def)
  from raising_output_never_hurts
    [where ?o1.0 = 1000 and ?o2.0 = 2000 and pq = quoteA and rq = curveQuoted
       and route = curveRoute and k = 1 and qs = "[quoteB, quoteA]" and out = 2000
       and routes = "[curveRoute, v3Route]" and scored = "[curveScored, v3Scored]"
       and n = 1 and nq = v3Quoted and raised = 2000 and rest = "[curveScored]"]
    sel le pos ms cs di qn pn un
  show ?thesis by simp
qed

section \<open>Chaining of the returned route\<close>

lemma allBridges_nonzero: "b \<in> set allBridges \<Longrightarrow> b \<noteq> 0"
  by (auto simp: allBridges_def LAYERZERO_SEPOLIA_def HOP_SEPOLIA_def STARGATE_SEPOLIA_def)

lemma allBridges_fee:
  "b \<in> set allBridges \<Longrightarrow> bridgeFee (getBridgeQuote b s a sc tc) < uint256_max"
  by (auto simp: allBridges_def getBridgeQuote_def uint256_max_def
      word_order.not_eq_extremum [symmetric])

lemma bestBridge_loop_viable:
  assumes "getViableBridges s a sc tc \<noteq> []"
  shows "fst (bestBridge_loop s a sc tc (getViableBridges s a sc tc) (0, uint256_max))
           \<in> set (getViableBridges s a sc tc)"
proof -
  from assms obtain b bs where v: "getViableBridges s a sc tc = b # bs"
    by (cases "getViableBridges s a sc tc") auto
  then have "b \<in> set (getViableBridges s a sc tc)" by simp
  then have "b \<in> set allBridges" by (simp add: getViableBridges_iff)
  then have "bridgeFee (getBridgeQuote b s a sc tc) < uint256_max" by (rule allBridges_fee)
  then have "bestBridge_loop s a sc tc (b # bs) (0, uint256_max) =
      bestBridge_loop s a sc tc bs (b, bridgeFee (getBridgeQuote b s a sc tc))"
    by (simp add: Let_def)
  with v bestBridge_loop_fst [of s a sc tc bs "(b, bridgeFee (getBridgeQuote b s a sc tc))"]
  show ?thesis by auto
qed

lemma getDirectPath_shape:
  assumes "getDirectPath st s t a sc tc = Inr r"
  shows "dexs r = [if a * 99 div 100 \<noteq> 0 then UNISWAP_V2_SEPOLIA else 0] \<and>
         chains r = [sc, tc] \<and>
         (sc = tc \<or> getViableBridges s a sc tc = [] \<longrightarrow> bridges r = []) \<and>
         (sc \<noteq> tc \<and> getViableBridges s a sc tc \<noteq> [] \<longrightarrow>
            (\<exists>b \<in> set (getViableBridges s a sc tc). bridges r = [b]))"
proof -
  let ?V = "getViableBridges s a sc tc"
  let ?B = "fst (bestBridge_loop s a sc tc ?V (0, uint256_max))"
  have nz: "?V \<noteq> [] \<Longrightarrow> ?B \<in> set ?V \<and> ?B \<noteq> 0"
    using bestBridge_loop_viable [of s a sc tc] allBridges_nonzero [of ?B]
    by (simp add: getViableBridges_iff)
  have d: "dexs r = [if a * 99 div 100 \<noteq> 0 then UNISWAP_V2_SEPOLIA else 0]"
    using assms
    by (auto simp: getDirectPath_def getViableDexs_eq getDexQuote_cases bind_res_Inr_iff
        Let_def word_greater_zero_iff split: if_splits prod.splits)
  have c: "chains r = [sc, tc]"
    using assms
    by (auto simp: getDirectPath_def Let_def bind_res_Inr_iff split: if_splits prod.splits)
  have b: "bridges r = (if sc \<noteq> tc \<and> ?B \<noteq> 0 then [?B] else [])"
    using assms
    by (auto simp: getDirectPath_def Let_def bind_res_Inr_iff split: if_splits prod.splits)
  have e: "?V = [] \<Longrightarrow> ?B = 0" by simp
  from d c b nz e show ?thesis by auto
qed

text \<open>
  C8, as stated, fails. For a cross-chain request of 1000 units no bridge is viable, and
  the route that \<^verbatim>\<open>PathOptimizer.findOptimalPath\<close> returns has one DEX and no bridge: its
  only hop is a swap on the source chain, so the last hop ends on chain 1 while the
  request's target is on chain 2.
\<close>

theorem cross_chain_route_stops_on_source_chain:
  "PathOptimizer_findOptimalPath priced_state 1 2 1000 1 2 =
     Inr \<lparr>dexs = [UNISWAP_V2_SEPOLIA], chains = [1, 2], bridges = [],
          estimatedGas = 150000, expectedOutput = 990\<rparr> \<and>
   routeHops [1, 2]
     \<lparr>dexs = [UNISWAP_V2_SEPOLIA], chains = [1, 2], bridges = [],
      estimatedGas = 150000, expectedOutput = 990\<rparr> = [Swap UNISWAP_V2_SEPOLIA 1 2 1] \<and>
   snd (hop_ends (Swap UNISWAP_V2_SEPOLIA 1 2 1)) = (2, 1) \<and>
   \<not> connects (1, 1) (2, 2)
       (map hop_ends
          (routeHops [1, 2]
             \<lparr>dexs = [UNISWAP_V2_SEPOLIA], chains = [1, 2], bridges = [],
              estimatedGas = 150000, expectedOutput = 990\<rparr>))"
  by (simp add: findOptimalPath_priced_1000 routeHops_def)

text \<open>
  C8, amended. A route returned by the frontend \<^verbatim>\<open>findBestRoute\<close> names the request's
  input and output token, and its path is the token path of a surviving quote whose
  swaps connect the address of the input token to the address of the output token; the
  symbols shown connect the input symbol to the output symbol. A route returned by
  \<^verbatim>\<open>PathOptimizerV2.findOptimalPath\<close> is the swap on the hard-coded DEX followed by the
  hard-coded bridge from the source chain to the target chain, and connects the source
  token and chain to the target token and chain. A route returned by
  \<^verbatim>\<open>PathOptimizer.findOptimalPath\<close> is one swap on the source chain, on the Uniswap V2
  address or on the zero address when the quoted output is zero, followed by a viable
  bridge exactly when the request is cross-chain and a bridge is viable: it connects
  source to target if and only if the request stays on one chain or a bridge is viable.
  A route returned by \<^verbatim>\<open>getSplitPath\<close> swaps twice on the source chain, each swap followed
  by the hard-coded bridge, and connects source to target through any intermediate
  token.
\<close>

theorem returned_route_connects:
  "(\<forall>r. findBestRoute env i o' a = Inr r \<longrightarrow>
      route_input_token r = i \<and> route_output_token r = o' \<and>
      (\<exists>amountIn q x y. q \<in> set (validQuotes env i o' amountIn) \<and>
         route_path r = join '' -> '' (map symbolOf (q_path q)) \<and>
         map_of TOKENS i = Some x \<and> map_of TOKENS o' = Some y \<and>
         connects x y (hops (q_path q)) \<and>
         connects i o' (hops (map symbolOf (q_path q))))) \<and>
   (\<forall>r. PathOptimizerV2_findOptimalPath st s t amt sc tc = Inr r \<longrightarrow>
      routeHops [s, t] r =
        [Swap UNISWAP_V2_SEPOLIA s t sc, Bridge LAYERZERO_SEPOLIA t sc tc] \<and>
      connects (s, sc) (t, tc) (map hop_ends (routeHops [s, t] r))) \<and>
   (\<forall>r. PathOptimizer_findOptimalPath st s t amt sc tc = Inr r \<longrightarrow>
      (\<exists>d. d = (if amt * 99 div 100 \<noteq> 0 then UNISWAP_V2_SEPOLIA else 0) \<and>
         (sc = tc \<or> getViableBridges s amt sc tc = [] \<longrightarrow>
            routeHops [s, t] r = [Swap d s t sc]) \<and>
         (sc \<noteq> tc \<and> getViableBridges s amt sc tc \<noteq> [] \<longrightarrow>
            (\<exists>b \<in> set (getViableBridges s amt sc tc).
               routeHops [s, t] r = [Swap d s t sc, Bridge b t sc tc]))) \<and>
      (connects (s, sc) (t, tc) (map hop_ends (routeHops [s, t] r)) \<longleftrightarrow>
         sc = tc \<or> getViableBridges s amt sc tc \<noteq> [])) \<and>
   (\<forall>r mid. getSplitPath st s t amt sc tc = Inr r \<longrightarrow>
      routeHops [s, mid, t] r =
        [Swap UNISWAP_V2_MAINNET s mid sc, Bridge LAYERZERO_SEPOLIA mid sc sc,
         Swap UNISWAP_V2_MAINNET mid t sc, Bridge LAYERZERO_SEPOLIA t sc tc] \<and>
      connects (s, sc) (t, tc) (map hop_ends (routeHops [s, mid, t] r)))"
proof (intro conjI allI impI)
  fix r
  assume h: "findBestRoute env i o' a = Inr r"
  from findBestRoute_Inr [OF h] obtain amountIn where
    ne: "validQuotes env i o' amountIn \<noteq> []"
    and r: "r = buildRoute env i o' a (reduce pickBetter (validQuotes env i o' amountIn))"
    by blast
  let ?q = "reduce pickBetter (validQuotes env i o' amountIn)"
  have qin: "?q \<in> set (validQuotes env i o' amountIn)" using ne by (rule reduce_pickBetter_in)
  from r show "route_input_token r = i" by (simp add: buildRoute_def)
  from r show "route_output_token r = o'" by (simp add: buildRoute_def)
  from r have rp: "route_path r = join '' -> '' (map symbolOf (q_path ?q))"
    by (simp add: buildRoute_def)
  from validQuotes_path [OF qin] obtain x y where
    x: "map_of TOKENS i = Some x" and y: "map_of TOKENS o' = Some y" and
    c: "q_path ?q = [x, the (map_of TOKENS ''WETH''), y] \<or> q_path ?q = [x, y]"
    by blast
  from x have sx: "symbolOf x = i" by (rule symbolOf_TOKENS)
  from y have sy: "symbolOf y = o'" by (rule symbolOf_TOKENS)
  from c sx sy have "connects x y (hops (q_path ?q)) \<and>
      connects i o' (hops (map symbolOf (q_path ?q)))"
    by (auto simp: hops_def)
  with qin rp x y
  show "\<exists>amountIn q x y. q \<in> set (validQuotes env i o' amountIn) \<and>
         route_path r = join '' -> '' (map symbolOf (q_path q)) \<and>
         map_of TOKENS i = Some x \<and> map_of TOKENS o' = Some y \<and>
         connects x y (hops (q_path q)) \<and>
         connects i o' (hops (map symbolOf (q_path q)))"
    by blast
next
  fix r
  assume "PathOptimizerV2_findOptimalPath st s t amt sc tc = Inr r"
  then have "dexs r = [UNISWAP_V2_SEPOLIA] \<and> chains r = [sc, tc] \<and>
      bridges r = [LAYERZERO_SEPOLIA]"
    by (auto simp: PathOptimizerV2_findOptimalPath_def bind_res_Inr_iff)
  then have e: "routeHops [s, t] r =
        [Swap UNISWAP_V2_SEPOLIA s t sc, Bridge LAYERZERO_SEPOLIA t sc tc]"
    by (simp add: routeHops_def)
  then show "routeHops [s, t] r =
        [Swap UNISWAP_V2_SEPOLIA s t sc, Bridge LAYERZERO_SEPOLIA t sc tc]" .
  from e show "connects (s, sc) (t, tc) (map hop_ends (routeHops [s, t] r))" by simp
next
  fix r
  assume "PathOptimizer_findOptimalPath st s t amt sc tc = Inr r"
  then have g: "getDirectPath st s t amt sc tc = Inr r"
    by (simp add: PathOptimizer_findOptimalPath_def)
  let ?d = "if amt * 99 div 100 \<noteq> 0 then UNISWAP_V2_SEPOLIA else 0"
  from getDirectPath_shape [OF g] have d: "dexs r = [?d]" and c: "chains r = [sc, tc]"
    and b0: "sc = tc \<or> getViableBridges s amt sc tc = [] \<longrightarrow> bridges r = []"
    and b1: "sc \<noteq> tc \<and> getViableBridges s amt sc tc \<noteq> [] \<longrightarrow>
            (\<exists>b \<in> set (getViableBridges s amt sc tc). bridges r = [b])"
    by simp_all
  have h0: "sc = tc \<or> getViableBridges s amt sc tc = [] \<longrightarrow>
      routeHops [s, t] r = [Swap ?d s t sc]"
    using d c b0 by (auto simp: routeHops_def)
  have h1: "sc \<noteq> tc \<and> getViableBridges s amt sc tc \<noteq> [] \<longrightarrow>
      (\<exists>b \<in> set (getViableBridges s amt sc tc).
         routeHops [s, t] r = [Swap ?d s t sc, Bridge b t sc tc])"
    using d c b1 by (auto simp: routeHops_def)
  from h0 h1
  show "\<exists>d. d = (if amt * 99 div 100 \<noteq> 0 then UNISWAP_V2_SEPOLIA else 0) \<and>
         (sc = tc \<or> getViableBridges s amt sc tc = [] \<longrightarrow>
            routeHops [s, t] r = [Swap d s t sc]) \<and>
         (sc \<noteq> tc \<and> getViableBridges s amt sc tc \<noteq> [] \<longrightarrow>
            (\<exists>b \<in> set (getViableBridges s amt sc tc).
               routeHops [s, t] r = [Swap d s t sc, Bridge b t sc tc]))"
    by blast
  show "connects (s, sc) (t, tc) (map hop_ends (routeHops [s, t] r)) \<longleftrightarrow>
         sc = tc \<or> getViableBridges s amt sc tc \<noteq> []"
  proof (cases "sc = tc \<or> getViableBridges s amt sc tc = []")
    case True
    with h0 have "routeHops [s, t] r = [Swap ?d s t sc]" by simp
    with True show ?thesis by auto
  next
    case False
    with h1 obtain b where "routeHops [s, t] r = [Swap ?d s t sc, Bridge b t sc tc]"
      by auto
    with False show ?thesis by auto
  qed
next
  fix r mid
  assume "getSplitPath st s t amt sc tc = Inr r"
  then have "dexs r = [UNISWAP_V2_MAINNET, UNISWAP_V2_MAINNET] \<and>
      chains r = [sc, sc, tc] \<and> bridges r = [LAYERZERO_SEPOLIA, LAYERZERO_SEPOLIA]"
    by (auto simp: getSplitPath_def bind_res_Inr_iff split: prod.splits)
  then have e: "routeHops [s, mid, t] r =
        [Swap UNISWAP_V2_MAINNET s mid sc, Bridge LAYERZERO_SEPOLIA mid sc sc,
         Swap UNISWAP_V2_MAINNET mid t sc, Bridge LAYERZERO_SEPOLIA t sc tc]"
    by (simp add: routeHops_def)
  then show "routeHops [s, mid, t] r =
        [Swap UNISWAP_V2_MAINNET s mid sc, Bridge LAYERZERO_SEPOLIA mid sc sc,
         Swap UNISWAP_V2_MAINNET mid t sc, Bridge LAYERZERO_SEPOLIA t sc tc]" .
  from e show "connects (s, sc) (t, tc) (map hop_ends (routeHops [s, mid, t] r))" by simp
qed

theorem returned_route_connects_witness:
  "findBestRoute tie_env ''PYUSD'' ''USDC'' ''1'' =
     Inr \<lparr>route_protocol = ''Uniswap V2'', route_input_token = ''PYUSD'',
          route_output_token = ''USDC'', route_input_amount = ''1'',
          route_output_amount = ''1.0'', route_gas_cost = ''0.0'',
          route_execution_time = 24, route_path = ''PYUSD -> WETH -> USDC''\<rparr> \<and>
   (\<exists>p. ''PYUSD -> WETH -> USDC'' = join '' -> '' p \<and> connects ''PYUSD'' ''USDC'' (hops p)) \<and>
   connects (1, 1) (2, 2)
     (map hop_ends
        (routeHops [1, 2]
           \<lparr>dexs = [UNISWAP_V2_SEPOLIA], chains = [1, 2], bridges = [LAYERZERO_SEPOLIA],
            estimatedGas = 150000, expectedOutput = 1900\<rparr>)) \<and>
   connects (1, 1) (2, 2)
     (map hop_ends
        (routeHops [1, 2]
           \<lparr>dexs = [UNISWAP_V2_SEPOLIA], chains = [1, 2], bridges = [HOP_SEPOLIA],
            estimatedGas = 350000, expectedOutput = 197703000000000000\<rparr>)) \<and>
   connects (1, 1) (2, 2)
     (map hop_ends
        (routeHops [1, WETH_SEPOLIA, 2]
           \<lparr>dexs = [UNISWAP_V2_MAINNET, UNISWAP_V2_MAINNET], chains = [1, 1, 2],
            bridges = [LAYERZERO_SEPOLIA, LAYERZERO_SEPOLIA],
            estimatedGas = 800000, expectedOutput = 3800000000000000000\<rparr>))"
proof -
  have ne: "(1::uint16) \<noteq> 2" by simp
  have v: "getViableBridges 1 200000000000000000 1 2 \<noteq> []"
    by (simp add: hop_only_viable)
  from returned_route_connects
    [where env = tie_env and i = "''PYUSD''" and o' = "''USDC''" and a = "''1''"
       and st = priced_state and s = 1 and t = 2 and amt = 1000 and sc = 1 and tc = 2]
  have a: "(\<exists>p. ''PYUSD -> WETH -> USDC'' = join '' -> '' p \<and>
              connects ''PYUSD'' ''USDC'' (hops p))"
    and b: "connects (1, 1) (2, 2)
     (map hop_ends
        (routeHops [1, 2]
           \<lparr>dexs = [UNISWAP_V2_SEPOLIA], chains = [1, 2], bridges = [LAYERZERO_SEPOLIA],
            estimatedGas = 150000, expectedOutput = 1900\<rparr>))"
    unfolding tie_eval findOptimalPathV2_priced by fastforce+
  from returned_route_connects
    [where st = priced_state and s = 1 and t = 2 and amt = 200000000000000000
       and sc = 1 and tc = 2] ne v
  have c: "connects (1, 1) (2, 2)
     (map hop_ends
        (routeHops [1, 2]
           \<lparr>dexs = [UNISWAP_V2_SEPOLIA], chains = [1, 2], bridges = [HOP_SEPOLIA],
            estimatedGas = 350000, expectedOutput = 197703000000000000\<rparr>))"
    unfolding findOptimalPath_priced_hop by fastforce
  from returned_route_connects
    [where st = split_state and s = 1 and t = 2 and amt = 2000000000000000000
       and sc = 1 and tc = 2]
  have d: "connects (1, 1) (2, 2)
     (map hop_ends
        (routeHops [1, WETH_SEPOLIA, 2]
           \<lparr>dexs = [UNISWAP_V2_MAINNET, UNISWAP_V2_MAINNET], chains = [1, 1, 2],
            bridges = [LAYERZERO_SEPOLIA, LAYERZERO_SEPOLIA],
            estimatedGas = 800000, expectedOutput = 3800000000000000000\<rparr>))"
    unfolding split_eval by fastforce
  from a b c d show ?thesis by (simp add: tie_eval)
qed

section \<open>No surviving candidate\<close>

text \<open>
  C4, as stated, fails. For a cross-chain request of 1000 units no bridge is viable, and
  \<^verbatim>\<open>PathOptimizer.findOptimalPath\<close> returns a route without a bridge, while
  \<^verbatim>\<open>PathOptimizerV2.findOptimalPath\<close> returns a route with its hard-coded bridge: neither
  reports a failure.
\<close>

theorem no_bridge_still_routed:
  "(1::uint16) \<noteq> 2 \<and> getViableBridges 1 1000 1 2 = [] \<and>
   PathOptimizer_findOptimalPath priced_state 1 2 1000 1 2 =
     Inr \<lparr>dexs = [UNISWAP_V2_SEPOLIA], chains = [1, 2], bridges = [],
          estimatedGas = 150000, expectedOutput = 990\<rparr> \<and>
   PathOptimizerV2_findOptimalPath priced_state 1 2 1000 1 2 =
     Inr \<lparr>dexs = [UNISWAP_V2_SEPOLIA], chains = [1, 2], bridges = [LAYERZERO_SEPOLIA],
          estimatedGas = 150000, expectedOutput = 1900\<rparr>"
  by (simp add: no_viable_bridge_1000 findOptimalPath_priced_1000 findOptimalPathV2_priced)

text \<open>
  C4, amended. When every quote attempt of a request fails, the frontend
  \<^verbatim>\<open>findBestRoute\<close> returns no route: it throws, and for a request that passes the
  input checks and the amount conversion the error is \<^verbatim>\<open>No valid routes found\<close>. A
  cross-chain request for which no bridge is viable is not rejected by the contracts:
  \<^verbatim>\<open>PathOptimizer.findOptimalPath\<close> returns a route with an empty bridge list whenever
  the amount can be quoted.
\<close>

theorem no_quote_no_route:
  "(i \<noteq> [] \<and> o' \<noteq> [] \<and> a \<noteq> [] \<and> parseFloat env a = Some v \<and> 0 < v \<and>
    parseEther env a = Inr amountIn \<and>
    list_all (\<lambda>p. quotePath env amountIn p = None) (validPaths i o') \<longrightarrow>
      findBestRoute env i o' a = Inl (Error ''No valid routes found'')) \<and>
   ((\<forall>n. list_all (\<lambda>p. quotePath env n p = None) (validPaths i o')) \<longrightarrow>
      (\<exists>e. findBestRoute env i o' a = Inl e)) \<and>
   (sc \<noteq> tc \<and> getViableBridges s amt sc tc = [] \<and> uint amt * 99 < 2 ^ 256 \<longrightarrow>
      (\<exists>r. PathOptimizer_findOptimalPath st s t amt sc tc = Inr r \<and>
           bridges r = [] \<and> chains r = [sc, tc]))"
proof (intro conjI impI)
  assume h: "i \<noteq> [] \<and> o' \<noteq> [] \<and> a \<noteq> [] \<and> parseFloat env a = Some v \<and> 0 < v \<and>
    parseEther env a = Inr amountIn \<and>
    list_all (\<lambda>p. quotePath env amountIn p = None) (validPaths i o')"
  then have "validQuotes env i o' amountIn = []" by (simp add: validQuotes_none)
  with h show "findBestRoute env i o' a = Inl (Error ''No valid routes found'')"
    by (simp add: findBestRoute_def bind_res_def)
next
  assume h: "\<forall>n. list_all (\<lambda>p. quotePath env n p = None) (validPaths i o')"
  show "\<exists>e. findBestRoute env i o' a = Inl e"
  proof (cases "findBestRoute env i o' a")
    case (Inl e)
    then show ?thesis by blast
  next
    case (Inr r)
    from findBestRoute_Inr [OF Inr] obtain n where "validQuotes env i o' n \<noteq> []" by blast
    moreover from h have "validQuotes env i o' n = []" by (simp add: validQuotes_none)
    ultimately show ?thesis by simp
  qed
next
  assume "sc \<noteq> tc \<and> getViableBridges s amt sc tc = [] \<and> uint amt * 99 < 2 ^ 256"
  then show "\<exists>r. PathOptimizer_findOptimalPath st s t amt sc tc = Inr r \<and>
           bridges r = [] \<and> chains r = [sc, tc]"
    using getDirectPath_no_bridge [of sc tc s amt st t]
    by (simp add: PathOptimizer_findOptimalPath_def)
qed

theorem no_quote_no_route_witness:
  "findBestRoute dead_env ''PYUSD'' ''USDC'' ''1'' = Inl (Error ''No valid routes found'') \<and>
   (\<exists>r. PathOptimizer_findOptimalPath priced_state 1 2 1000 1 2 = Inr r \<and>
        bridges r = [] \<and> chains r = [1, 2])"
proof -
  have pf: "parseFloat dead_env ''1'' = Some 1"
    by (simp add: dead_env_def flat_env_def)
  have pe: "parseEther dead_env ''1'' = Inr 1000000000000000000"
    by (simp add: dead_env_def flat_env_def)
  from no_quote_no_route
    [where env = dead_env and i = "''PYUSD''" and o' = "''USDC''" and a = "''1''" and v = 1
       and amountIn = 1000000000000000000 and sc = 1 and tc = 2 and s = 1 and t = 2
       and amt = 1000 and st = priced_state]
    pf pe dead_quotes no_viable_bridge_1000
  show ?thesis by simp
qed

section \<open>Reliability without history\<close>

text \<open>
  C6, as stated, fails. For a protocol without history, and for a history entry with
  zero executions, the reliability score is 0, not a positive baseline; the protocol
  with recorded executions scores strictly higher.
\<close>

theorem zero_samples_score_zero:
  "reliabilityScore (historyOf ''curve'') = 0 \<and>
   reliabilityScore
     (Some \<lparr>history_protocol = Some ''curve'', avg_execution_time = 2.5,
            avg_slippage = 0.001, total_executions = 0\<rparr>) = 0 \<and>
   reliabilityScore (historyOf ''curve'') < reliabilityScore (historyOf ''uniswap_v3'') \<and>
   \<not> (\<exists>c. 0 < c \<and> (\<forall>e. total_executions e = 0 \<longrightarrow> reliabilityScore (Some e) = c))"
proof -
  have z: "\<And>e. total_executions e = 0 \<Longrightarrow> reliabilityScore (Some e) = 0"
    by (simp add: reliabilityScore_def)
  have "\<not> (\<exists>c. 0 < c \<and> (\<forall>e. total_executions e = 0 \<longrightarrow> reliabilityScore (Some e) = c))"
  proof
    assume "\<exists>c. 0 < c \<and> (\<forall>e. total_executions e = 0 \<longrightarrow> reliabilityScore (Some e) = c)"
    then obtain c where c: "0 < c"
      and a: "\<forall>e. total_executions e = 0 \<longrightarrow> reliabilityScore (Some e) = c" by blast
    let ?e = "\<lparr>history_protocol = Some ''curve'', avg_execution_time = 2.5,
            avg_slippage = 0.001, total_executions = 0\<rparr>"
    from a have "reliabilityScore (Some ?e) = c" by simp
    moreover have "reliabilityScore (Some ?e) = 0" by (simp add: z)
    ultimately show False using c by simp
  qed
  then show ?thesis
    by (simp add: historyOf_curve reliabilityScore_uniswap_v3 z) (simp add: reliabilityScore_def)
qed

text \<open>
  C6, amended. The reliability score of a protocol with no history entry, or with an
  entry of zero executions, is the constant 0. In the mock history every protocol other
  than \<^verbatim>\<open>uniswap_v3\<close> is without entry, and the priority score of its route consists of
  the output term and the gas term alone.
\<close>

theorem no_history_reliability_zero:
  "((h = None \<or> (\<exists>e. h = Some e \<and> total_executions e = 0)) \<longrightarrow> reliabilityScore h = 0) \<and>
   (p \<noteq> ''uniswap_v3'' \<longrightarrow> reliabilityScore (historyOf p) = 0) \<and>
   (\<forall>s q. protocol route \<noteq> ''uniswap_v3'' \<and> quote route = Some q \<and>
      scoreRoute route = Inr s \<longrightarrow>
      (\<exists>ratio. bigint_div (output_amount q * 400) (input_amount q) = Inr ratio \<and>
         priority_score s =
           real_of_int ratio / 1000 +
           (1 / (if gas_cost q = 0 then 1 else real_of_int (gas_cost q))) * 0.3 + 0 * 0.3))"
proof (intro conjI impI allI)
  assume "h = None \<or> (\<exists>e. h = Some e \<and> total_executions e = 0)"
  then show "reliabilityScore h = 0"
    by (auto simp: reliabilityScore_def)
next
  assume "p \<noteq> ''uniswap_v3''"
  then show "reliabilityScore (historyOf p) = 0"
    by (simp add: historyOf_other reliabilityScore_def)
next
  fix s q
  assume h: "protocol route \<noteq> ''uniswap_v3'' \<and> quote route = Some q \<and>
      scoreRoute route = Inr s"
  then have "reliabilityScore (historyOf (protocol route)) = 0"
    by (simp add: historyOf_other reliabilityScore_def)
  with h show "\<exists>ratio. bigint_div (output_amount q * 400) (input_amount q) = Inr ratio \<and>
         priority_score s =
           real_of_int ratio / 1000 +
           (1 / (if gas_cost q = 0 then 1 else real_of_int (gas_cost q))) * 0.3 + 0 * 0.3"
    by (auto simp: scoreRoute_def Let_def bind_res_Inr_iff)
qed

theorem no_history_reliability_zero_witness:
  "reliabilityScore (historyOf ''curve'') = 0 \<and>
   (\<exists>s. scoreRoute curveRoute = Inr s \<and>
        priority_score s = 398 / 1000 + (1 / 100000) * 0.3 + 0 * 0.3)"
proof -
  have ex: "\<exists>s. scoreRoute curveRoute = Inr s"
    by (simp add: scoreRoute_def curveRoute_def curveQuoted_def bigint_div_def bind_res_def
        Let_def)
  have pr: "protocol curveRoute \<noteq> ''uniswap_v3''" and qu: "quote curveRoute = Some curveQuoted"
    by (simp_all add: curveRoute_def)
  have bd: "bigint_div (output_amount curveQuoted * 400) (input_amount curveQuoted) = Inr 398"
    by (simp add: bigint_div_def curveQuoted_def)
  have gc: "gas_cost curveQuoted = 100000"
    by (simp add: curveQuoted_def)
  from no_history_reliability_zero
    [where h = "historyOf ''curve''" and p = "''curve''" and route = curveRoute]
    ex pr qu bd gc historyOf_curve
  show ?thesis by fastforce
qed

end
